theory Spec2Isabelle
  imports Main
begin

section \<open>Values shared by the proxy and the OAuth flow\<close>

text \<open>
  Everything the TypeScript code throws is a value of \<open>error\<close>. \<open>Error msg\<close> is a plain
  \<^verbatim>\<open>new Error(msg)\<close>; \<open>RangeError msg\<close> is the built-in \<^verbatim>\<open>RangeError\<close>;
  \<open>ProviderError message provider statusCode originalError\<close> is
  \<^verbatim>\<open>new ProviderError(message, provider, statusCode, {originalError})\<close>.
\<close>

datatype error =
    Error string
  | RangeError string
  | AuthError string
  | TransientAuthError string
  | ProviderError string string int string

fun error_message :: "error \<Rightarrow> string" where
  "error_message (Error m) = m"
| "error_message (RangeError m) = m"
| "error_message (AuthError m) = m"
| "error_message (TransientAuthError m) = m"
| "error_message (ProviderError m _ _ _) = m"

text \<open>
  JavaScript truthiness of an optional string and of an optional number, as tested by
  \<^verbatim>\<open>if (x)\<close>, \<^verbatim>\<open>!x\<close> and \<^verbatim>\<open>x || y\<close>: \<^verbatim>\<open>undefined\<close>, \<^verbatim>\<open>null\<close>, the empty string
  and \<open>0\<close> are falsy.
\<close>

definition truthy_str :: "string option \<Rightarrow> bool" where
  "truthy_str s = (case s of None \<Rightarrow> False | Some v \<Rightarrow> v \<noteq> [])"

definition truthy_num :: "int option \<Rightarrow> bool" where
  "truthy_num n = (case n of None \<Rightarrow> False | Some v \<Rightarrow> v \<noteq> 0)"

text \<open>
  \<^verbatim>\<open>x || null\<close> and \<^verbatim>\<open>x || undefined\<close> on an optional string, and
  \<^verbatim>\<open>x || ""\<close>.
\<close>

definition or_null :: "string option \<Rightarrow> string option" where
  "or_null s = (if truthy_str s then s else None)"

definition or_empty :: "string option \<Rightarrow> string" where
  "or_empty s = (case s of None \<Rightarrow> [] | Some v \<Rightarrow> v)"

text \<open>
  A row of the \<^verbatim>\<open>accounts\<close> table, with the columns that the two \<^verbatim>\<open>INSERT\<close>
  statements of the OAuth flow write. The proxy reads \<^verbatim>\<open>id\<close>, \<^verbatim>\<open>name\<close>,
  \<^verbatim>\<open>api_key\<close> and \<^verbatim>\<open>account_tier\<close> of the same object. A column holding SQL
  \<^verbatim>\<open>NULL\<close> is \<open>None\<close>.
\<close>

record account =
  acc_id :: string
  name :: string
  provider :: string
  api_key :: "string option"
  refresh_token :: "string option"
  access_token :: "string option"
  expires_at :: "int option"
  created_at :: int
  request_count :: int
  total_requests :: int
  account_tier :: int
  base_url :: "string option"

section \<open>The response processor\<close>

type_synonym headers = "(string \<times> string) list"

record response =
  status :: int
  statusText :: string
  resp_headers :: headers
  resp_body :: string

text \<open>The value returned by \<^verbatim>\<open>Provider.parseRateLimit\<close>.\<close>

record rate_limit_info =
  isRateLimited :: bool
  resetTime :: "int option"
  statusHeader :: "string option"
  remaining :: "int option"

text \<open>
  The provider adapter is not part of the sources at hand; its operations are parameters.
  The two optional methods (\<^verbatim>\<open>isStreamingResponse?\<close>, \<^verbatim>\<open>extractTierInfo?\<close>) are
  optional fields. \<^verbatim>\<open>parseRateLimit\<close> may throw.
\<close>

record provider_adapter =
  provider_name :: string
  buildUrl :: "string \<Rightarrow> string \<Rightarrow> account option \<Rightarrow> string"
  prepareHeaders :: "headers \<Rightarrow> string option \<Rightarrow> string option \<Rightarrow> headers"
  isStreamingResponse :: "(response \<Rightarrow> bool) option"
  parseRateLimit :: "response \<Rightarrow> error + rate_limit_info"
  extractTierInfo :: "(response \<Rightarrow> int option) option"

text \<open>
  The closures handed to \<^verbatim>\<open>ctx.asyncWriter.enqueue\<close>, each naming the
  \<^verbatim>\<open>ctx.dbOps\<close> operation it will run and its arguments.
\<close>

datatype db_op =
    MarkAccountRateLimited string int
  | UpdateAccountUsage string
  | UpdateAccountRateLimitMeta string string "int option" "int option"
  | UpdateAccountTier string int

text \<open>
  The usage record that the response handler produces for a request (section 3 of the
  specification), with the fields that the caller of the response handler determines.
\<close>

record usage_record =
  ur_request_id :: string
  ur_account_id :: "string option"
  ur_path :: string
  ur_method :: string
  ur_status :: int
  ur_timestamp :: int
  ur_agent :: "string option"
  ur_failover_attempts :: nat

text \<open>
  The mutable part of the proxy context: the queue of the async writer, in enqueue order,
  and the usage records produced so far.
\<close>

record ctx_state =
  asyncQueue :: "db_op list"
  usageRecords :: "usage_record list"

definition enqueue :: "db_op \<Rightarrow> ctx_state \<Rightarrow> ctx_state" where
  "enqueue op st = st\<lparr>asyncQueue := asyncQueue st @ [op]\<rparr>"

definition SUCCESS_STATUS_CODES :: "int set" where
  "SUCCESS_STATUS_CODES = {200}"

text \<open>
  The time values that a JavaScript \<^verbatim>\<open>Date\<close> can hold: at most 8.64e15 milliseconds
  from the epoch, either way. \<^verbatim>\<open>new Date(t).toISOString()\<close> throws a
  \<^verbatim>\<open>RangeError\<close> for any other \<open>t\<close>.
\<close>

definition valid_date :: "int \<Rightarrow> bool" where
  "valid_date t = (- 8640000000000000 \<le> t \<and> t \<le> 8640000000000000)"

text \<open>
  \<^verbatim>\<open>handleRateLimitResponse\<close>: returns at once when \<^verbatim>\<open>resetTime\<close> is falsy. Otherwise
  its warning formats \<^verbatim>\<open>new Date(rateLimitInfo.resetTime).toISOString()\<close>, which throws
  when the reset time is not a valid date, before anything is enqueued; for a valid date
  it enqueues \<^verbatim>\<open>markAccountRateLimited(account.id, resetTime)\<close>. The log output itself
  is not modelled.
\<close>

definition handleRateLimitResponse ::
  "account \<Rightarrow> rate_limit_info \<Rightarrow> ctx_state \<Rightarrow> (error + unit) \<times> ctx_state" where
  "handleRateLimitResponse acct rateLimitInfo st =
     (case resetTime rateLimitInfo of
        None \<Rightarrow> (Inr (), st)
      | Some t \<Rightarrow>
          if t = 0 then (Inr (), st)
          else if \<not> valid_date t then (Inl (RangeError ''Invalid time value''), st)
          else (Inr (), enqueue (MarkAccountRateLimited (acc_id acct) t) st))"

text \<open>\<^verbatim>\<open>handleNonSuccessResponse\<close> only logs: the context is not touched.\<close>

definition handleNonSuccessResponse :: "account \<Rightarrow> response \<Rightarrow> ctx_state \<Rightarrow> ctx_state" where
  "handleNonSuccessResponse acct resp st = st"

text \<open>
  \<^verbatim>\<open>updateAccountMetadata\<close>: always enqueues the usage update, then parses the rate-limit
  headers again and enqueues the rate-limit metadata when \<^verbatim>\<open>statusHeader\<close> is truthy
  (\<^verbatim>\<open>resetTime ?? null\<close> is the optional reset time itself), then, when the provider
  has \<^verbatim>\<open>extractTierInfo\<close>, enqueues a tier update for a truthy tier that differs from the
  account's. The tier extraction runs in a detached async block; its enqueue is placed
  after the synchronous ones.
\<close>

definition updateAccountMetadata ::
  "provider_adapter \<Rightarrow> account \<Rightarrow> response \<Rightarrow> ctx_state \<Rightarrow> (error + unit) \<times> ctx_state" where
  "updateAccountMetadata p acct resp st =
     (let st1 = enqueue (UpdateAccountUsage (acc_id acct)) st in
      case parseRateLimit p resp of
        Inl e \<Rightarrow> (Inl e, st1)
      | Inr rateLimitInfo \<Rightarrow>
          (let st2 =
                 (case statusHeader rateLimitInfo of
                    None \<Rightarrow> st1
                  | Some s \<Rightarrow>
                      if s = [] then st1
                      else enqueue (UpdateAccountRateLimitMeta (acc_id acct) s
                                      (resetTime rateLimitInfo) (remaining rateLimitInfo)) st1);
               st3 =
                 (case extractTierInfo p of
                    None \<Rightarrow> st2
                  | Some extract \<Rightarrow>
                      (case extract resp of
                         None \<Rightarrow> st2
                       | Some tier \<Rightarrow>
                           if tier \<noteq> 0 \<and> tier \<noteq> account_tier acct
                           then enqueue (UpdateAccountTier (acc_id acct) tier) st2
                           else st2))
           in (Inr (), st3)))"

text \<open>\<^verbatim>\<open>ctx.provider.isStreamingResponse?.(response) ?? false\<close>.\<close>

definition isStream_of :: "provider_adapter \<Rightarrow> response \<Rightarrow> bool" where
  "isStream_of p resp = (case isStreamingResponse p of None \<Rightarrow> False | Some f \<Rightarrow> f resp)"

text \<open>
  \<^verbatim>\<open>processProxyResponse\<close>: the result \<open>Inr True\<close> signals failover, \<open>Inr False\<close>
  success; \<open>Inl e\<close> is an exception, thrown by the provider while parsing or by
  \<^verbatim>\<open>handleRateLimitResponse\<close>.
\<close>

definition processProxyResponse ::
  "provider_adapter \<Rightarrow> response \<Rightarrow> account \<Rightarrow> ctx_state \<Rightarrow> (error + bool) \<times> ctx_state" where
  "processProxyResponse p resp acct st =
     (let isStream = isStream_of p resp in
      case parseRateLimit p resp of
        Inl e \<Rightarrow> (Inl e, st)
      | Inr rateLimitInfo \<Rightarrow>
          if \<not> isStream \<and> isRateLimited rateLimitInfo \<and> truthy_num (resetTime rateLimitInfo)
          then
            (case handleRateLimitResponse acct rateLimitInfo st of
               (Inl e, st1) \<Rightarrow> (Inl e, st1)
             | (Inr _, st1) \<Rightarrow>
                 (case updateAccountMetadata p acct resp st1 of
                    (Inl e, st2) \<Rightarrow> (Inl e, st2)
                  | (Inr _, st2) \<Rightarrow> (Inr True, st2)))
          else if status resp \<notin> SUCCESS_STATUS_CODES
          then (Inr True, handleNonSuccessResponse acct resp st)
          else
            (case updateAccountMetadata p acct resp st of
               (Inl e, st1) \<Rightarrow> (Inl e, st1)
             | (Inr _, st1) \<Rightarrow> (Inr False, st1)))"

text \<open>Vocabulary for the queue: the kinds of operation, and the part of a queue added by a call.\<close>

fun is_usage_op :: "db_op \<Rightarrow> bool" where
  "is_usage_op (UpdateAccountUsage _) = True"
| "is_usage_op _ = False"

fun is_mark_op :: "db_op \<Rightarrow> bool" where
  "is_mark_op (MarkAccountRateLimited _ _) = True"
| "is_mark_op _ = False"

fun is_meta_op :: "db_op \<Rightarrow> bool" where
  "is_meta_op (UpdateAccountRateLimitMeta _ _ _ _) = True"
| "is_meta_op _ = False"

fun is_tier_op :: "db_op \<Rightarrow> bool" where
  "is_tier_op (UpdateAccountTier _ _) = True"
| "is_tier_op _ = False"

fun op_account :: "db_op \<Rightarrow> string" where
  "op_account (MarkAccountRateLimited a _) = a"
| "op_account (UpdateAccountUsage a) = a"
| "op_account (UpdateAccountRateLimitMeta a _ _ _) = a"
| "op_account (UpdateAccountTier a _) = a"

definition enqueued_by :: "ctx_state \<Rightarrow> ctx_state \<Rightarrow> db_op list" where
  "enqueued_by st st' = drop (length (asyncQueue st)) (asyncQueue st')"

section \<open>Proxy operations\<close>

record request =
  req_method :: string
  req_headers :: headers
  req_body :: "string option"

record url =
  pathname :: string
  search :: string

record request_meta =
  meta_id :: string
  meta_timestamp :: int
  agentUsed :: "string option"

text \<open>The options object that the proxy operations hand to \<^verbatim>\<open>forwardToClient\<close>.\<close>

record forward_options =
  fo_requestId :: string
  fo_method :: string
  fo_path :: string
  fo_account :: "account option"
  fo_requestHeaders :: headers
  fo_requestBody :: "string option"
  fo_response :: response
  fo_timestamp :: int
  fo_retryAttempt :: nat
  fo_failoverAttempts :: nat
  fo_agentUsed :: "string option"

text \<open>
  The proxy context and the collaborators that the proxy operations import. The token
  manager and the request forwarder are not part of the sources at hand; they are
  parameters, each either throwing or returning. \<^verbatim>\<open>createBodyStream\<close> is represented by
  the bytes it would stream. \<^verbatim>\<open>UNAUTHENTICATED_FAILED\<close> is the text of
  \<^verbatim>\<open>ERROR_MESSAGES.UNAUTHENTICATED_FAILED\<close>. \<open>forwardRejection\<close> says whether the
  promise that \<^verbatim>\<open>forwardToClient\<close> returns for given options rejects, and with what.
\<close>

record proxy_context =
  ctx_provider :: provider_adapter
  getValidAccessToken :: "account \<Rightarrow> error + string"
  makeProxyRequest :: "string \<Rightarrow> string \<Rightarrow> headers \<Rightarrow> string option \<Rightarrow> bool \<Rightarrow> error + response"
  UNAUTHENTICATED_FAILED :: string
  forwardRejection :: "forward_options \<Rightarrow> error option"

text \<open>The names of the hop-by-hop headers (section 4.1 of the specification), in lower case.\<close>

definition hop_by_hop :: "string list" where
  "hop_by_hop = [''host'', ''connection'', ''content-length'', ''transfer-encoding'',
     ''keep-alive'', ''proxy-authorization'', ''te'', ''trailer'', ''upgrade'']"

text \<open>
  Modelled from the spec: \<^verbatim>\<open>prepare_headers\<close> of the provider adapter (section 4.1),
  whose code is not among the sources. It copies the incoming headers except the hop-by-hop
  ones and any existing \<^verbatim>\<open>authorization\<close> or \<^verbatim>\<open>x-api-key\<close>; with an access token it
  adds the bearer authorization and the provider's user-agent and version headers \<open>ua\<close>;
  otherwise with an api key it adds \<^verbatim>\<open>x-api-key\<close> and the version headers \<open>ver\<close>; it
  never sets both. Header names are in lower case, as the Fetch API keeps them.
\<close>

definition prepare_headers ::
  "headers \<Rightarrow> headers \<Rightarrow> headers \<Rightarrow> string option \<Rightarrow> string option \<Rightarrow> headers" where
  "prepare_headers ua ver incoming accessToken apiKey =
     (let copied = filter (\<lambda>(k, v). k \<notin> set hop_by_hop \<and> k \<noteq> ''authorization''
                                      \<and> k \<noteq> ''x-api-key'') incoming in
      case accessToken of
        Some token \<Rightarrow> copied @ [(''authorization'', ''Bearer '' @ token)] @ ua
      | None \<Rightarrow>
          (case apiKey of
             Some k \<Rightarrow> copied @ [(''x-api-key'', k)] @ ver
           | None \<Rightarrow> copied))"

text \<open>
  Modelled from the spec: \<^verbatim>\<open>forwardToClient\<close> of the response handler, whose code is
  not among the sources. It hands the accepted upstream response to the client (sections
  4.9 and 6: status and body unchanged, headers without the hop-by-hop ones) and produces
  the usage record of the request (section 3), whose account is the one in the options.
  Its result is a promise: \<open>Inr\<close> is the response it resolves to, \<open>Inl\<close> its rejection.
  The specification gives it no failure, so whether it rejects is a parameter of the
  context, and a rejected call is taken to produce no usage record.
\<close>

definition forwardToClient ::
  "proxy_context \<Rightarrow> forward_options \<Rightarrow> ctx_state \<Rightarrow> (error + response) \<times> ctx_state" where
  "forwardToClient ctx opts st =
     (case forwardRejection ctx opts of
        Some e \<Rightarrow> (Inl e, st)
      | None \<Rightarrow>
          (let upstream = fo_response opts;
               rec = \<lparr>ur_request_id = fo_requestId opts,
                      ur_account_id = map_option acc_id (fo_account opts),
                      ur_path = fo_path opts,
                      ur_method = fo_method opts,
                      ur_status = status upstream,
                      ur_timestamp = fo_timestamp opts,
                      ur_agent = fo_agentUsed opts,
                      ur_failover_attempts = fo_failoverAttempts opts\<rparr>
           in (Inr (upstream\<lparr>resp_headers :=
                        filter (\<lambda>(k, v). k \<notin> set hop_by_hop) (resp_headers upstream)\<rparr>),
               st\<lparr>usageRecords := usageRecords st @ [rec]\<rparr>)))"

text \<open>
  \<^verbatim>\<open>proxyUnauthenticated\<close>: the headers are prepared with neither token nor key, and an
  exception of the awaited upstream call is rethrown as a \<^verbatim>\<open>ProviderError\<close> with
  status 502. The promise of \<^verbatim>\<open>forwardToClient\<close> is returned from the \<^verbatim>\<open>try\<close> block
  without \<^verbatim>\<open>await\<close>: it settles after the block is left, so its rejection is not
  caught and becomes the rejection of \<^verbatim>\<open>proxyUnauthenticated\<close>.
\<close>

definition proxyUnauthenticated ::
  "proxy_context \<Rightarrow> request \<Rightarrow> url \<Rightarrow> request_meta \<Rightarrow> string option \<Rightarrow> string option
     \<Rightarrow> ctx_state \<Rightarrow> (error + response) \<times> ctx_state" where
  "proxyUnauthenticated ctx req u requestMeta requestBodyBuffer createBodyStream st =
     (let targetUrl = buildUrl (ctx_provider ctx) (pathname u) (search u) None;
          hdrs = prepareHeaders (ctx_provider ctx) (req_headers req) None None in
      case makeProxyRequest ctx targetUrl (req_method req) hdrs createBodyStream
             (req_body req \<noteq> None) of
        Inl e \<Rightarrow>
          (Inl (ProviderError (UNAUTHENTICATED_FAILED ctx) (provider_name (ctx_provider ctx)) 502
                  (error_message e)), st)
      | Inr upstream \<Rightarrow>
          forwardToClient ctx
            \<lparr>fo_requestId = meta_id requestMeta,
             fo_method = req_method req,
             fo_path = pathname u,
             fo_account = None,
             fo_requestHeaders = req_headers req,
             fo_requestBody = requestBodyBuffer,
             fo_response = upstream,
             fo_timestamp = meta_timestamp requestMeta,
             fo_retryAttempt = 0,
             fo_failoverAttempts = 0,
             fo_agentUsed = agentUsed requestMeta\<rparr> st)"

text \<open>
  The \<^verbatim>\<open>try\<close> block of \<^verbatim>\<open>proxyWithAccount\<close>, up to the point where it is left.
  \<open>Inl e\<close> is an exception thrown inside the block, \<open>Inr None\<close> the \<^verbatim>\<open>null\<close> that
  signals the next account, and \<open>Inr (Some opts)\<close> the last statement,
  \<^verbatim>\<open>return forwardToClient(opts, ctx)\<close>, which leaves the block with a promise that has
  not settled. \<^verbatim>\<open>account.api_key || undefined\<close> passes the key only when it is truthy.
\<close>

definition proxyWithAccount_try ::
  "proxy_context \<Rightarrow> request \<Rightarrow> url \<Rightarrow> account \<Rightarrow> request_meta \<Rightarrow> string option
     \<Rightarrow> string option \<Rightarrow> nat \<Rightarrow> ctx_state \<Rightarrow> (error + forward_options option) \<times> ctx_state" where
  "proxyWithAccount_try ctx req u acct requestMeta requestBodyBuffer createBodyStream
       failoverAttempts st =
     (case getValidAccessToken ctx acct of
        Inl e \<Rightarrow> (Inl e, st)
      | Inr accessToken \<Rightarrow>
          (let hdrs = prepareHeaders (ctx_provider ctx) (req_headers req) (Some accessToken)
                        (or_null (api_key acct));
               targetUrl = buildUrl (ctx_provider ctx) (pathname u) (search u) (Some acct) in
           case makeProxyRequest ctx targetUrl (req_method req) hdrs createBodyStream
                  (req_body req \<noteq> None) of
             Inl e \<Rightarrow> (Inl e, st)
           | Inr upstream \<Rightarrow>
               (case processProxyResponse (ctx_provider ctx) upstream acct st of
                  (Inl e, st1) \<Rightarrow> (Inl e, st1)
                | (Inr shouldFailover, st1) \<Rightarrow>
                    if shouldFailover then (Inr None, st1)
                    else
                      (Inr (Some
                              \<lparr>fo_requestId = meta_id requestMeta,
                               fo_method = req_method req,
                               fo_path = pathname u,
                               fo_account = Some acct,
                               fo_requestHeaders = req_headers req,
                               fo_requestBody = requestBodyBuffer,
                               fo_response = upstream,
                               fo_timestamp = meta_timestamp requestMeta,
                               fo_retryAttempt = 0,
                               fo_failoverAttempts = failoverAttempts,
                               fo_agentUsed = agentUsed requestMeta\<rparr>), st1))))"

text \<open>
  \<^verbatim>\<open>proxyWithAccount\<close>: the \<^verbatim>\<open>catch\<close> clause logs an exception thrown inside the
  block and returns \<^verbatim>\<open>null\<close>; what the block enqueued before it threw stays enqueued.
  The promise of \<^verbatim>\<open>forwardToClient\<close> is returned without \<^verbatim>\<open>await\<close>, so the
  \<^verbatim>\<open>catch\<close> clause does not see its rejection: \<^verbatim>\<open>proxyWithAccount\<close> resolves or
  rejects as that promise does. \<open>Inl e\<close> is the rejection of \<^verbatim>\<open>proxyWithAccount\<close>.
\<close>

definition proxyWithAccount ::
  "proxy_context \<Rightarrow> request \<Rightarrow> url \<Rightarrow> account \<Rightarrow> request_meta \<Rightarrow> string option
     \<Rightarrow> string option \<Rightarrow> nat \<Rightarrow> ctx_state \<Rightarrow> (error + response option) \<times> ctx_state" where
  "proxyWithAccount ctx req u acct requestMeta requestBodyBuffer createBodyStream
       failoverAttempts st =
     (case proxyWithAccount_try ctx req u acct requestMeta requestBodyBuffer createBodyStream
             failoverAttempts st of
        (Inl err, st1) \<Rightarrow> (Inr None, st1)
      | (Inr None, st1) \<Rightarrow> (Inr None, st1)
      | (Inr (Some opts), st1) \<Rightarrow>
          (case forwardToClient ctx opts st1 of
             (Inl rejection, st2) \<Rightarrow> (Inl rejection, st2)
           | (Inr forwarded, st2) \<Rightarrow> (Inr (Some forwarded), st2)))"

text \<open>
  Modelled from the spec: the attempt loop of the pipeline orchestrator (section 4.9),
  whose code is not among the sources. The candidates are attempted in order, the number
  of failovers so far being passed to each attempt; a response ends the loop; on failover
  the loop continues when more candidates remain and the body is replayable, and ends
  without an accepted response otherwise. An attempt that rejects aborts the request with
  its error (section 7).
\<close>

fun attemptCandidates ::
  "proxy_context \<Rightarrow> request \<Rightarrow> url \<Rightarrow> request_meta \<Rightarrow> string option \<Rightarrow> string option
     \<Rightarrow> bool \<Rightarrow> account list \<Rightarrow> nat \<Rightarrow> ctx_state \<Rightarrow> (error + response option) \<times> ctx_state" where
  "attemptCandidates ctx req u requestMeta buf body replayable [] failoverAttempts st =
     (Inr None, st)"
| "attemptCandidates ctx req u requestMeta buf body replayable (acct # candidates)
       failoverAttempts st =
     (case proxyWithAccount ctx req u acct requestMeta buf body failoverAttempts st of
        (Inl e, st1) \<Rightarrow> (Inl e, st1)
      | (Inr (Some accepted), st1) \<Rightarrow> (Inr (Some accepted), st1)
      | (Inr None, st1) \<Rightarrow>
          if candidates \<noteq> [] \<and> replayable
          then attemptCandidates ctx req u requestMeta buf body replayable candidates
                 (Suc failoverAttempts) st1
          else (Inr None, st1))"

section \<open>The OAuth flow\<close>

datatype flow_mode = MaxMode | ConsoleMode

datatype auth_type = OAuth | ApiKey

record pkce_challenge =
  verifier :: string
  challenge :: string

record oauth_provider_config =
  clientId :: string
  settings :: string

text \<open>
  The tokens returned by the code exchange. \<^verbatim>\<open>complete\<close> tests \<^verbatim>\<open>refreshToken\<close> for
  falsiness, so it is optional here; \<^verbatim>\<open>accessToken\<close> is a string and \<^verbatim>\<open>expiresAt\<close>
  a number, as \<^verbatim>\<open>OAuthTokens\<close> declares them.
\<close>

record oauth_tokens =
  accessToken :: string
  refreshToken :: "string option"
  expiresAt :: int

record oauth_provider =
  getOAuthConfig :: "flow_mode \<Rightarrow> oauth_provider_config"
  generateAuthUrl :: "oauth_provider_config \<Rightarrow> pkce_challenge \<Rightarrow> string"
  exchangeCode :: "string \<Rightarrow> string \<Rightarrow> oauth_provider_config \<Rightarrow> error + oauth_tokens"

record begin_result =
  sessionId :: string
  authUrl :: string
  pkce :: pkce_challenge
  oauthConfig :: oauth_provider_config
  mode :: flow_mode
  baseUrl :: "string option"

record account_created =
  created_id :: string
  created_name :: string
  created_tier :: int
  created_provider :: string
  authType :: auth_type

text \<open>The response of the console endpoint, as far as \<^verbatim>\<open>createAnthropicApiKey\<close> reads it.\<close>

record fetch_response =
  ok :: bool
  fetch_statusText :: string
  json_raw_key :: "error + string"

text \<open>
  What the flow takes from outside: the provider registry, the PKCE generator, the runtime
  client id of the configuration, the UUID that \<^verbatim>\<open>crypto.randomUUID()\<close> returns in this
  call, the clock, and the console endpoint (a function of the bearer token, which may
  throw).
\<close>

record oauth_world =
  getOAuthProvider :: "string \<Rightarrow> oauth_provider option"
  generatePKCE :: "error + pkce_challenge"
  runtime_clientId :: string
  randomUUID :: string
  now :: int
  create_api_key_endpoint :: "string \<Rightarrow> error + fetch_response"

text \<open>
  The database is its \<^verbatim>\<open>accounts\<close> table, the rows in insertion order.
  \<^verbatim>\<open>getAllAccounts\<close> reads all rows; the \<^verbatim>\<open>INSERT\<close> of \<^verbatim>\<open>db.run\<close> adds one.
\<close>

type_synonym database = "account list"

definition getAllAccounts :: "database \<Rightarrow> account list" where
  "getAllAccounts db = db"

definition insert_account :: "account \<Rightarrow> database \<Rightarrow> database" where
  "insert_account row db = db @ [row]"

text \<open>\<^verbatim>\<open>OAuthFlow.begin\<close>. It reads the accounts and writes nothing.\<close>

definition OAuthFlow_begin ::
  "oauth_world \<Rightarrow> database \<Rightarrow> string \<Rightarrow> flow_mode \<Rightarrow> string option
     \<Rightarrow> (error + begin_result) \<times> database" where
  "OAuthFlow_begin w db nm md burl =
     (let existingAccounts = getAllAccounts db in
      if list_ex (\<lambda>a. name a = nm) existingAccounts
      then (Inl (Error (''Account with name '' @ [CHR 0x27] @ nm @ [CHR 0x27]
                          @ '' already exists'')), db)
      else
        (case getOAuthProvider w ''anthropic'' of
           None \<Rightarrow> (Inl (Error ''Anthropic OAuth provider not found''), db)
         | Some oauthProvider \<Rightarrow>
             (case generatePKCE w of
                Inl e \<Rightarrow> (Inl e, db)
              | Inr pk \<Rightarrow>
                  (let cfg = (getOAuthConfig oauthProvider md)\<lparr>clientId := runtime_clientId w\<rparr>;
                       aurl = generateAuthUrl oauthProvider cfg pk;
                       sid = randomUUID w
                   in (Inr \<lparr>sessionId = sid, authUrl = aurl, pkce = pk, oauthConfig = cfg,
                             mode = md, baseUrl = burl\<rparr>, db)))))"

text \<open>
  \<^verbatim>\<open>createAnthropicApiKey\<close>: refuses a custom base URL, posts to the console endpoint,
  and returns \<^verbatim>\<open>raw_key\<close> of the JSON body of an ok response.
\<close>

definition OAuthFlow_createAnthropicApiKey ::
  "oauth_world \<Rightarrow> string \<Rightarrow> string option \<Rightarrow> error + string" where
  "OAuthFlow_createAnthropicApiKey w token burl =
     (if truthy_str burl \<and> burl \<noteq> Some ''https://api.anthropic.com''
      then Inl (Error ''Custom base URL accounts should use direct API key input, not OAuth API key creation'')
      else
        (case create_api_key_endpoint w token of
           Inl e \<Rightarrow> Inl e
         | Inr resp \<Rightarrow>
             if \<not> ok resp
             then Inl (Error (''Failed to create API key: '' @ fetch_statusText resp))
             else json_raw_key resp))"

text \<open>
  \<^verbatim>\<open>createAccountWithOAuth\<close>: the row has \<^verbatim>\<open>api_key\<close> \<^verbatim>\<open>NULL\<close>, the refresh token
  (\<^verbatim>\<open>tokens.refreshToken || ""\<close>), the access token, the expiry, and both counters 0.
\<close>

definition OAuthFlow_createAccountWithOAuth ::
  "oauth_world \<Rightarrow> database \<Rightarrow> string \<Rightarrow> string \<Rightarrow> oauth_tokens \<Rightarrow> int \<Rightarrow> string option
     \<Rightarrow> account_created \<times> database" where
  "OAuthFlow_createAccountWithOAuth w db ident nm tokens tier burl =
     (\<lparr>created_id = ident, created_name = nm, created_tier = tier,
       created_provider = ''anthropic'', authType = OAuth\<rparr>,
      insert_account
        \<lparr>acc_id = ident, name = nm, provider = ''anthropic'',
         api_key = None,
         refresh_token = Some (or_empty (refreshToken tokens)),
         access_token = Some (accessToken tokens),
         expires_at = Some (expiresAt tokens),
         created_at = now w, request_count = 0, total_requests = 0,
         account_tier = tier, base_url = or_null burl\<rparr> db)"

text \<open>
  \<^verbatim>\<open>createAccountWithApiKey\<close>: the row has the api key, the three token columns
  \<^verbatim>\<open>NULL\<close>, and both counters 0.
\<close>

definition OAuthFlow_createAccountWithApiKey ::
  "oauth_world \<Rightarrow> database \<Rightarrow> string \<Rightarrow> string \<Rightarrow> string \<Rightarrow> int \<Rightarrow> string option
     \<Rightarrow> account_created \<times> database" where
  "OAuthFlow_createAccountWithApiKey w db ident nm apiKey tier burl =
     (\<lparr>created_id = ident, created_name = nm, created_tier = tier,
       created_provider = ''anthropic'', authType = ApiKey\<rparr>,
      insert_account
        \<lparr>acc_id = ident, name = nm, provider = ''anthropic'',
         api_key = Some apiKey,
         refresh_token = None, access_token = None, expires_at = None,
         created_at = now w, request_count = 0, total_requests = 0,
         account_tier = tier, base_url = or_null burl\<rparr> db)"

text \<open>
  \<^verbatim>\<open>OAuthFlow.complete\<close>, with \<^verbatim>\<open>opts\<close> destructured into the code, the optional tier
  (default 1) and the name.
\<close>

definition OAuthFlow_complete ::
  "oauth_world \<Rightarrow> database \<Rightarrow> string \<Rightarrow> int option \<Rightarrow> string \<Rightarrow> begin_result
     \<Rightarrow> (error + account_created) \<times> database" where
  "OAuthFlow_complete w db code tier_opt nm flowData =
     (let tier = (case tier_opt of None \<Rightarrow> 1 | Some t \<Rightarrow> t) in
      case getOAuthProvider w ''anthropic'' of
        None \<Rightarrow> (Inl (Error ''Anthropic OAuth provider not found''), db)
      | Some oauthProvider \<Rightarrow>
          (case exchangeCode oauthProvider code (verifier (pkce flowData)) (oauthConfig flowData) of
             Inl e \<Rightarrow> (Inl e, db)
           | Inr tokens \<Rightarrow>
               (let accountId = randomUUID w in
                if mode flowData = ConsoleMode \<or> \<not> truthy_str (refreshToken tokens)
                then
                  (if truthy_str (baseUrl flowData)
                   then (Inl (Error ''Console mode with custom base URL should use direct API key input, not OAuth flow''), db)
                   else
                     (case OAuthFlow_createAnthropicApiKey w (accessToken tokens) (baseUrl flowData) of
                        Inl e \<Rightarrow> (Inl e, db)
                      | Inr apiKey \<Rightarrow>
                          (case OAuthFlow_createAccountWithApiKey w db accountId nm apiKey tier
                                  (baseUrl flowData) of
                             (created, db1) \<Rightarrow> (Inr created, db1))))
                else
                  (case OAuthFlow_createAccountWithOAuth w db accountId nm tokens tier
                          (baseUrl flowData) of
                     (created, db1) \<Rightarrow> (Inr created, db1)))))"

section \<open>Vocabulary of the theorems\<close>

text \<open>
  What \<open>updateAccountMetadata\<close> enqueues after the usage update: the rate-limit metadata
  for a truthy status header, and the tier update.
\<close>

definition meta_ops :: "account \<Rightarrow> rate_limit_info \<Rightarrow> db_op list" where
  "meta_ops acct info =
     (if truthy_str (statusHeader info)
      then [UpdateAccountRateLimitMeta (acc_id acct) (the (statusHeader info))
              (resetTime info) (remaining info)]
      else [])"

definition tier_ops :: "provider_adapter \<Rightarrow> account \<Rightarrow> response \<Rightarrow> db_op list" where
  "tier_ops p acct resp =
     (case extractTierInfo p of
        None \<Rightarrow> []
      | Some extract \<Rightarrow>
          (case extract resp of
             None \<Rightarrow> []
           | Some tier \<Rightarrow>
               if tier \<noteq> 0 \<and> tier \<noteq> account_tier acct
               then [UpdateAccountTier (acc_id acct) tier] else []))"

section \<open>Concrete inputs\<close>

text \<open>
  Accounts, responses, a provider and the collaborators of one deployment, on which the
  theorems below are evaluated. The example provider reports a rate limit on status 429,
  with a reset time, whatever the content type; it reads the status tag from the
  \<^verbatim>\<open>anthropic-ratelimit-unified-status\<close> header, throws on a malformed reset header,
  and takes a response for a stream when its content type is \<^verbatim>\<open>text/event-stream\<close>.
\<close>

definition account_A :: account where
  "account_A = \<lparr>acc_id = ''acc-A'', name = ''alpha'', provider = ''anthropic'',
     api_key = None, refresh_token = Some ''refresh-A'', access_token = Some ''token-A'',
     expires_at = Some 1700003600000, created_at = 1690000000000, request_count = 0,
     total_requests = 0, account_tier = 1, base_url = None\<rparr>"

definition account_B :: account where
  "account_B = \<lparr>acc_id = ''acc-B'', name = ''beta'', provider = ''anthropic'',
     api_key = None, refresh_token = Some ''refresh-B'', access_token = Some ''token-B'',
     expires_at = Some 1700003600000, created_at = 1690000000000, request_count = 0,
     total_requests = 0, account_tier = 5, base_url = None\<rparr>"

definition account_C :: account where
  "account_C = \<lparr>acc_id = ''acc-C'', name = ''gamma'', provider = ''anthropic'',
     api_key = None, refresh_token = Some ''refresh-C'', access_token = Some ''token-C'',
     expires_at = Some 1700003600000, created_at = 1690000000000, request_count = 0,
     total_requests = 0, account_tier = 1, base_url = None\<rparr>"

definition account_D :: account where
  "account_D = \<lparr>acc_id = ''acc-D'', name = ''delta'', provider = ''anthropic'',
     api_key = None, refresh_token = Some ''refresh-D'', access_token = Some ''token-D'',
     expires_at = Some 1700003600000, created_at = 1690000000000, request_count = 0,
     total_requests = 0, account_tier = 1, base_url = None\<rparr>"

definition account_expired :: account where
  "account_expired = \<lparr>acc_id = ''acc-E'', name = ''epsilon'', provider = ''anthropic'',
     api_key = None, refresh_token = Some ''revoked'', access_token = None,
     expires_at = Some 1600000000000, created_at = 1590000000000, request_count = 0,
     total_requests = 0, account_tier = 1, base_url = None\<rparr>"

definition example_provider :: provider_adapter where
  "example_provider = \<lparr>provider_name = ''anthropic'',
     buildUrl = (\<lambda>path query acct. ''https://api.anthropic.com'' @ path @ query),
     prepareHeaders =
       prepare_headers [(''user-agent'', ''cli'')] [(''anthropic-version'', ''2023-06-01'')],
     isStreamingResponse =
       Some (\<lambda>r. map_of (resp_headers r) ''content-type'' = Some ''text/event-stream''),
     parseRateLimit =
       (\<lambda>r. if map_of (resp_headers r) ''anthropic-ratelimit-unified-reset'' = Some ''soon''
            then Inl (Error ''Invalid time value'')
            else Inr \<lparr>isRateLimited = (status r = 429),
                      resetTime = (if status r = 429 then Some 1700000600000 else None),
                      statusHeader =
                        map_of (resp_headers r) ''anthropic-ratelimit-unified-status'',
                      remaining = None\<rparr>),
     extractTierInfo = None\<rparr>"

definition response_429 :: response where
  "response_429 = \<lparr>status = 429, statusText = ''Too Many Requests'',
     resp_headers = [(''anthropic-ratelimit-unified-status'', ''rate_limited'')],
     resp_body = []\<rparr>"

definition response_429_stream :: response where
  "response_429_stream = \<lparr>status = 429, statusText = ''Too Many Requests'',
     resp_headers = [(''content-type'', ''text/event-stream''),
                     (''anthropic-ratelimit-unified-status'', ''rate_limited'')],
     resp_body = []\<rparr>"

definition response_429_bare :: response where
  "response_429_bare = \<lparr>status = 429, statusText = ''Too Many Requests'',
     resp_headers = [], resp_body = []\<rparr>"

definition response_200 :: response where
  "response_200 = \<lparr>status = 200, statusText = ''OK'',
     resp_headers = [(''anthropic-ratelimit-unified-status'', ''allowed'')],
     resp_body = ''{}''\<rparr>"

definition response_200_stream :: response where
  "response_200_stream = \<lparr>status = 200, statusText = ''OK'',
     resp_headers = [(''content-type'', ''text/event-stream'')], resp_body = ''data''\<rparr>"

definition response_529 :: response where
  "response_529 = \<lparr>status = 529, statusText = ''Overloaded'', resp_headers = [],
     resp_body = []\<rparr>"

definition response_malformed :: response where
  "response_malformed = \<lparr>status = 200, statusText = ''OK'',
     resp_headers = [(''anthropic-ratelimit-unified-reset'', ''soon'')], resp_body = []\<rparr>"

definition empty_state :: ctx_state where
  "empty_state = \<lparr>asyncQueue = [], usageRecords = []\<rparr>"

text \<open>
  The token manager fails for the account without access token. Upstream answers by the
  bearer token: 429 for A, 200 for B, a network failure for C, a response with a malformed
  reset header for D; without credentials it answers 529 to a \<^verbatim>\<open>GET\<close> and is
  unreachable otherwise. The promise of the response handler does not reject.
\<close>

definition example_ctx :: proxy_context where
  "example_ctx = \<lparr>ctx_provider = example_provider,
     getValidAccessToken =
       (\<lambda>a. case access_token a of
               Some t \<Rightarrow> Inr t
             | None \<Rightarrow> Inl (AuthError ''refresh token rejected'')),
     makeProxyRequest =
       (\<lambda>target m hdrs body hasBody.
          case map_of hdrs ''authorization'' of
            Some bearer \<Rightarrow>
              if bearer = ''Bearer token-A'' then Inr response_429
              else if bearer = ''Bearer token-B'' then Inr response_200
              else if bearer = ''Bearer token-D'' then Inr response_malformed
              else Inl (Error ''ECONNRESET'')
          | None \<Rightarrow> if m = ''GET'' then Inr response_529 else Inl (Error ''ECONNREFUSED'')),
     UNAUTHENTICATED_FAILED = ''Failed to proxy request without authentication'',
     forwardRejection = (\<lambda>opts. None)\<rparr>"

text \<open>The same deployment with a response handler whose promise rejects.\<close>

definition rejecting_ctx :: proxy_context where
  "rejecting_ctx =
     example_ctx\<lparr>forwardRejection := (\<lambda>opts. Some (Error ''usage worker terminated''))\<rparr>"

definition example_request :: request where
  "example_request = \<lparr>req_method = ''POST'',
     req_headers = [(''host'', ''localhost:8080''), (''authorization'', ''Bearer client''),
                    (''content-type'', ''application/json'')],
     req_body = Some ''{}''\<rparr>"

definition example_get :: request where
  "example_get = \<lparr>req_method = ''GET'',
     req_headers = [(''host'', ''localhost:8080''), (''x-api-key'', ''client-key'')],
     req_body = None\<rparr>"

definition example_url :: url where
  "example_url = \<lparr>pathname = ''/v1/messages'', search = []\<rparr>"

definition example_meta :: request_meta where
  "example_meta = \<lparr>meta_id = ''req-1'', meta_timestamp = 1700000000000, agentUsed = None\<rparr>"

text \<open>
  The OAuth provider exchanges the code \<^verbatim>\<open>max-code\<close> for tokens with a refresh token,
  \<^verbatim>\<open>console-code\<close> for tokens without one, and rejects any other code.
\<close>

definition example_oauth_provider :: oauth_provider where
  "example_oauth_provider = \<lparr>
     getOAuthConfig = (\<lambda>m. \<lparr>clientId = [], settings = (if m = MaxMode then ''max'' else ''console'')\<rparr>),
     generateAuthUrl = (\<lambda>cfg pk. ''https://claude.ai/oauth/authorize?client_id='' @ clientId cfg),
     exchangeCode =
       (\<lambda>c v cfg.
          if c = ''max-code''
          then Inr \<lparr>accessToken = ''access-1'', refreshToken = Some ''refresh-1'',
                    expiresAt = 1700003600000\<rparr>
          else if c = ''console-code''
          then Inr \<lparr>accessToken = ''access-2'', refreshToken = None,
                    expiresAt = 1700003600000\<rparr>
          else Inl (Error ''Token exchange failed''))\<rparr>"

definition example_world :: oauth_world where
  "example_world = \<lparr>
     getOAuthProvider = (\<lambda>n. if n = ''anthropic'' then Some example_oauth_provider else None),
     generatePKCE = Inr \<lparr>verifier = ''verifier-1'', challenge = ''challenge-1''\<rparr>,
     runtime_clientId = ''client-1'',
     randomUUID = ''uuid-1'',
     now = 1700000000000,
     create_api_key_endpoint =
       (\<lambda>token. Inr \<lparr>ok = True, fetch_statusText = ''OK'', json_raw_key = Inr ''sk-ant-1''\<rparr>)\<rparr>"

definition example_db :: database where
  "example_db = [account_A]"

definition example_flow :: "flow_mode \<Rightarrow> string option \<Rightarrow> begin_result" where
  "example_flow m burl = \<lparr>sessionId = ''session-1'', authUrl = ''https://claude.ai/oauth/authorize'',
     pkce = \<lparr>verifier = ''verifier-1'', challenge = ''challenge-1''\<rparr>,
     oauthConfig = \<lparr>clientId = ''client-1'', settings = []\<rparr>, mode = m, baseUrl = burl\<rparr>"

section \<open>Facts about the queue\<close>

lemma truthy_str_simps [simp]:
  "truthy_str None = False" "truthy_str (Some s) = (s \<noteq> [])"
  by (simp_all add: truthy_str_def)

lemma truthy_num_simps [simp]:
  "truthy_num None = False" "truthy_num (Some n) = (n \<noteq> 0)"
  by (simp_all add: truthy_num_def)

lemma enqueued_by_append [simp]:
  "enqueued_by st (st\<lparr>asyncQueue := asyncQueue st @ ops\<rparr>) = ops"
  by (simp add: enqueued_by_def)

lemma enqueued_by_self [simp]: "enqueued_by st st = []"
  by (simp add: enqueued_by_def)

lemma tier_op_only: "is_tier_op x \<Longrightarrow> \<not> is_meta_op x \<and> \<not> is_mark_op x \<and> \<not> is_usage_op x"
  by (cases x) simp_all

lemma meta_op_only: "is_meta_op x \<Longrightarrow> \<not> is_mark_op x \<and> \<not> is_usage_op x"
  by (cases x) simp_all

lemma tier_list_no_meta: "list_all is_tier_op xs \<Longrightarrow> \<not> list_ex is_meta_op xs"
  by (induction xs) (auto simp: tier_op_only)

lemma tier_list_no_mark: "list_all is_tier_op xs \<Longrightarrow> \<not> list_ex is_mark_op xs"
  by (induction xs) (auto simp: tier_op_only)

lemma tier_list_filter_usage: "list_all is_tier_op xs \<Longrightarrow> filter is_usage_op xs = []"
  by (induction xs) (auto simp: tier_op_only)

lemma tier_list_filter_mark: "list_all is_tier_op xs \<Longrightarrow> filter is_mark_op xs = []"
  by (induction xs) (auto simp: tier_op_only)

lemma meta_list_no_mark: "list_all is_meta_op xs \<Longrightarrow> \<not> list_ex is_mark_op xs"
  by (induction xs) (auto simp: meta_op_only)

lemma meta_list_filter_usage: "list_all is_meta_op xs \<Longrightarrow> filter is_usage_op xs = []"
  by (induction xs) (auto simp: meta_op_only)

lemma meta_list_filter_mark: "list_all is_meta_op xs \<Longrightarrow> filter is_mark_op xs = []"
  by (induction xs) (auto simp: meta_op_only)

lemma tier_ops_kind: "list_all is_tier_op (tier_ops p acct resp)"
  by (simp add: tier_ops_def split: option.splits)

lemma meta_ops_kind: "list_all is_meta_op (meta_ops acct info)"
  by (simp add: meta_ops_def)

lemma updateAccountMetadata_parsed:
  assumes "parseRateLimit p resp = Inr info"
  shows "updateAccountMetadata p acct resp st =
     (Inr (), st\<lparr>asyncQueue := asyncQueue st @ [UpdateAccountUsage (acc_id acct)]
                   @ meta_ops acct info @ tier_ops p acct resp\<rparr>)"
  using assms
  by (auto simp add: updateAccountMetadata_def Let_def meta_ops_def tier_ops_def enqueue_def
      split: option.splits)

lemma processProxyResponse_rate_limited:
  assumes "parseRateLimit p resp = Inr info"
    and "\<not> isStream_of p resp" and "isRateLimited info" and "resetTime info = Some t"
    and "t \<noteq> 0" and "valid_date t"
  shows "processProxyResponse p resp acct st =
     (Inr True, st\<lparr>asyncQueue := asyncQueue st
        @ [MarkAccountRateLimited (acc_id acct) t, UpdateAccountUsage (acc_id acct)]
        @ meta_ops acct info @ tier_ops p acct resp\<rparr>)"
  using assms
  by (simp add: processProxyResponse_def Let_def handleRateLimitResponse_def
      updateAccountMetadata_parsed enqueue_def)

lemma processProxyResponse_non_success:
  assumes "parseRateLimit p resp = Inr info"
    and "\<not> (\<not> isStream_of p resp \<and> isRateLimited info \<and> truthy_num (resetTime info))"
    and "status resp \<noteq> 200"
  shows "processProxyResponse p resp acct st = (Inr True, st)"
  using assms
  by (auto simp add: processProxyResponse_def Let_def SUCCESS_STATUS_CODES_def
      handleNonSuccessResponse_def)

lemma processProxyResponse_success:
  assumes "parseRateLimit p resp = Inr info"
    and "\<not> (\<not> isStream_of p resp \<and> isRateLimited info \<and> truthy_num (resetTime info))"
    and "status resp = 200"
  shows "processProxyResponse p resp acct st =
     (Inr False, st\<lparr>asyncQueue := asyncQueue st @ [UpdateAccountUsage (acc_id acct)]
                      @ meta_ops acct info @ tier_ops p acct resp\<rparr>)"
  using assms
  by (auto simp add: processProxyResponse_def Let_def SUCCESS_STATUS_CODES_def
      updateAccountMetadata_parsed)

lemma processProxyResponse_throws:
  assumes "parseRateLimit p resp = Inl e"
  shows "processProxyResponse p resp acct st = (Inl e, st)"
  using assms by (simp add: processProxyResponse_def Let_def)

lemma processProxyResponse_invalid_reset:
  assumes "parseRateLimit p resp = Inr info"
    and "\<not> isStream_of p resp" and "isRateLimited info" and "resetTime info = Some t"
    and "t \<noteq> 0" and "\<not> valid_date t"
  shows "processProxyResponse p resp acct st = (Inl (RangeError ''Invalid time value''), st)"
  using assms
  by (simp add: processProxyResponse_def Let_def handleRateLimitResponse_def)

section \<open>The classifier\<close>

text \<open>
  C3. A response whose status is not 200 and whose parsed signal is not rate-limited with a
  reset time makes the classifier signal failover and enqueue nothing: the context, and
  with it every stored field of the account, is as before.
\<close>

theorem nonSuccess_failover_without_metadata:
  assumes "parseRateLimit p resp = Inr info"
    and "status resp \<noteq> 200"
    and "\<not> (isRateLimited info \<and> truthy_num (resetTime info))"
  shows "processProxyResponse p resp acct st = (Inr True, st)"
  using assms by (simp add: processProxyResponse_non_success)

theorem nonSuccess_failover_without_metadata_witness:
  "parseRateLimit example_provider response_529
     = Inr \<lparr>isRateLimited = False, resetTime = None, statusHeader = None, remaining = None\<rparr>
   \<and> status response_529 \<noteq> 200
   \<and> processProxyResponse example_provider response_529 account_A empty_state
       = (Inr True, empty_state)"
proof -
  let ?info = "\<lparr>isRateLimited = False, resetTime = None, statusHeader = None, remaining = None\<rparr>"
  have parsed: "parseRateLimit example_provider response_529 = Inr ?info"
    by (simp add: example_provider_def response_529_def)
  have st: "status response_529 \<noteq> 200"
    by (simp add: response_529_def)
  have nrl: "\<not> (isRateLimited ?info \<and> truthy_num (resetTime ?info))"
    by simp
  from nonSuccess_failover_without_metadata [OF parsed st nrl] parsed st
  show ?thesis by simp
qed

text \<open>
  C4. A response with status 200 that does not take the rate-limit branch makes the
  classifier signal success and enqueue the usage update of the account, followed by the
  rate-limit metadata exactly when the status tag of the signal is present (a non-empty
  string), followed by tier updates only.
\<close>

theorem success_enqueues_usage_and_meta:
  assumes "parseRateLimit p resp = Inr info"
    and "status resp = 200"
    and "\<not> (\<not> isStream_of p resp \<and> isRateLimited info \<and> truthy_num (resetTime info))"
  shows "\<exists>tierOps.
     processProxyResponse p resp acct st =
       (Inr False,
        st\<lparr>asyncQueue := asyncQueue st @ [UpdateAccountUsage (acc_id acct)]
             @ (if truthy_str (statusHeader info)
                then [UpdateAccountRateLimitMeta (acc_id acct) (the (statusHeader info))
                        (resetTime info) (remaining info)]
                else [])
             @ tierOps\<rparr>)
     \<and> list_all is_tier_op tierOps
     \<and> (list_ex is_meta_op (enqueued_by st (snd (processProxyResponse p resp acct st)))
          \<longleftrightarrow> truthy_str (statusHeader info))"
proof (intro exI conjI)
  show eq: "processProxyResponse p resp acct st =
       (Inr False,
        st\<lparr>asyncQueue := asyncQueue st @ [UpdateAccountUsage (acc_id acct)]
             @ (if truthy_str (statusHeader info)
                then [UpdateAccountRateLimitMeta (acc_id acct) (the (statusHeader info))
                        (resetTime info) (remaining info)]
                else [])
             @ tier_ops p acct resp\<rparr>)"
    using processProxyResponse_success [OF assms(1) assms(3) assms(2)]
    by (simp add: meta_ops_def)
  show tiers: "list_all is_tier_op (tier_ops p acct resp)"
    by (rule tier_ops_kind)
  have "\<not> list_ex is_meta_op (tier_ops p acct resp)"
    using tiers by (rule tier_list_no_meta)
  then show "list_ex is_meta_op (enqueued_by st (snd (processProxyResponse p resp acct st)))
          \<longleftrightarrow> truthy_str (statusHeader info)"
    unfolding eq by simp
qed


theorem success_enqueues_usage_and_meta_witness:
  "parseRateLimit example_provider response_200
     = Inr \<lparr>isRateLimited = False, resetTime = None, statusHeader = Some ''allowed'',
            remaining = None\<rparr>
   \<and> status response_200 = 200
   \<and> fst (processProxyResponse example_provider response_200 account_A empty_state) = Inr False
   \<and> take 2 (asyncQueue (snd (processProxyResponse example_provider response_200 account_A
                empty_state)))
       = [UpdateAccountUsage ''acc-A'',
          UpdateAccountRateLimitMeta ''acc-A'' ''allowed'' None None]"
proof -
  let ?info = "\<lparr>isRateLimited = False, resetTime = None, statusHeader = Some ''allowed'',
                 remaining = None\<rparr>"
  have parsed: "parseRateLimit example_provider response_200 = Inr ?info"
    by (simp add: example_provider_def response_200_def)
  have st: "status response_200 = 200"
    by (simp add: response_200_def)
  have nrl: "\<not> (\<not> isStream_of example_provider response_200 \<and> isRateLimited ?info
                \<and> truthy_num (resetTime ?info))"
    by simp
  from success_enqueues_usage_and_meta [OF parsed st nrl, of account_A empty_state]
  obtain tierOps where
    "processProxyResponse example_provider response_200 account_A empty_state =
       (Inr False,
        empty_state\<lparr>asyncQueue := asyncQueue empty_state @ [UpdateAccountUsage (acc_id account_A)]
             @ (if truthy_str (statusHeader ?info)
                then [UpdateAccountRateLimitMeta (acc_id account_A) (the (statusHeader ?info))
                        (resetTime ?info) (remaining ?info)]
                else [])
             @ tierOps\<rparr>)"
    by blast
  then show ?thesis
    using parsed st by (simp add: account_A_def empty_state_def)
qed

text \<open>
  C9. When the provider takes the response for a stream, the rate-limit branch is not
  taken, whatever the parsed signal says: failover is decided by the status alone, no
  rate-limit mark is enqueued, a status other than 200 leaves the context as it was, and
  status 200 updates the metadata as any success does.
\<close>

theorem streaming_skips_rate_limit_branch:
  assumes "isStreamingResponse p = Some f"
    and "f resp"
    and "parseRateLimit p resp = Inr info"
  shows "fst (processProxyResponse p resp acct st) = Inr (status resp \<noteq> 200)
     \<and> \<not> list_ex is_mark_op (enqueued_by st (snd (processProxyResponse p resp acct st)))
     \<and> (status resp \<noteq> 200 \<longrightarrow> snd (processProxyResponse p resp acct st) = st)
     \<and> (status resp = 200 \<longrightarrow>
          snd (processProxyResponse p resp acct st) = snd (updateAccountMetadata p acct resp st))"
proof -
  have stream: "isStream_of p resp"
    using assms(1,2) by (simp add: isStream_of_def)
  then have nrl: "\<not> (\<not> isStream_of p resp \<and> isRateLimited info \<and> truthy_num (resetTime info))"
    by simp
  show ?thesis
  proof (cases "status resp = 200")
    case True
    have "\<not> list_ex is_mark_op (meta_ops acct info)"
      by (rule meta_list_no_mark) (rule meta_ops_kind)
    moreover have "\<not> list_ex is_mark_op (tier_ops p acct resp)"
      by (rule tier_list_no_mark) (rule tier_ops_kind)
    ultimately show ?thesis
      using True processProxyResponse_success [OF assms(3) nrl True, of acct st]
        updateAccountMetadata_parsed [OF assms(3), of acct st]
      by simp
  next
    case False
    then show ?thesis
      using processProxyResponse_non_success [OF assms(3) nrl False, of acct st] by simp
  qed
qed

theorem streaming_skips_rate_limit_branch_witness:
  "parseRateLimit example_provider response_429_stream
     = Inr \<lparr>isRateLimited = True, resetTime = Some 1700000600000,
            statusHeader = Some ''rate_limited'', remaining = None\<rparr>
   \<and> processProxyResponse example_provider response_429_stream account_A empty_state
       = (Inr True, empty_state)"
proof -
  let ?f = "\<lambda>r. map_of (resp_headers r) ''content-type'' = Some ''text/event-stream''"
  let ?info = "\<lparr>isRateLimited = True, resetTime = Some 1700000600000,
                 statusHeader = Some ''rate_limited'', remaining = None\<rparr>"
  have s: "isStreamingResponse example_provider = Some ?f"
    by (simp add: example_provider_def)
  have f: "?f response_429_stream"
    by (simp add: response_429_stream_def)
  have parsed: "parseRateLimit example_provider response_429_stream = Inr ?info"
    by (simp add: example_provider_def response_429_stream_def)
  have st: "status response_429_stream \<noteq> 200"
    by (simp add: response_429_stream_def)
  from streaming_skips_rate_limit_branch [OF s f parsed, of account_A empty_state] st
  have "fst (processProxyResponse example_provider response_429_stream account_A empty_state)
          = Inr True"
    and "snd (processProxyResponse example_provider response_429_stream account_A empty_state)
          = empty_state"
    by simp_all
  then have "processProxyResponse example_provider response_429_stream account_A empty_state
          = (Inr True, empty_state)"
    by (simp add: prod_eq_iff)
  with parsed show ?thesis by simp
qed

text \<open>
  C1, as stated, fails: a rate-limited signal with a reset time does not make the
  classifier mark the account when the response is a stream, and does not make it enqueue
  the rate-limit metadata when the signal has no status tag.
\<close>

theorem rate_limited_with_reset_counterexample:
  "parseRateLimit example_provider response_429_stream
     = Inr \<lparr>isRateLimited = True, resetTime = Some 1700000600000,
            statusHeader = Some ''rate_limited'', remaining = None\<rparr>
   \<and> processProxyResponse example_provider response_429_stream account_A empty_state
       = (Inr True, \<lparr>asyncQueue = [], usageRecords = []\<rparr>)
   \<and> parseRateLimit example_provider response_429_bare
     = Inr \<lparr>isRateLimited = True, resetTime = Some 1700000600000,
            statusHeader = None, remaining = None\<rparr>
   \<and> processProxyResponse example_provider response_429_bare account_A empty_state
       = (Inr True, \<lparr>asyncQueue = [MarkAccountRateLimited ''acc-A'' 1700000600000,
                                    UpdateAccountUsage ''acc-A''],
                      usageRecords = []\<rparr>)"
  by (simp add: example_provider_def response_429_stream_def response_429_bare_def
      account_A_def empty_state_def processProxyResponse_def isStream_of_def Let_def
      SUCCESS_STATUS_CODES_def handleNonSuccessResponse_def handleRateLimitResponse_def
      valid_date_def updateAccountMetadata_def enqueue_def)

text \<open>
  C1, amended. When the response is not a stream and the parsed signal is rate-limited
  with a reset time that is not 0 and is a valid date, the classifier signals failover and
  enqueues, in this order, the rate-limit mark of the account with exactly that reset
  time, the usage update of the account, the rate-limit metadata exactly when the signal
  has a status tag, and tier updates only.
\<close>

theorem rate_limited_marks_account_and_fails_over:
  assumes "parseRateLimit p resp = Inr info"
    and "\<not> isStream_of p resp"
    and "isRateLimited info"
    and "resetTime info = Some t"
    and "t \<noteq> 0"
    and "valid_date t"
  shows "\<exists>tierOps.
     processProxyResponse p resp acct st =
       (Inr True,
        st\<lparr>asyncQueue := asyncQueue st
             @ [MarkAccountRateLimited (acc_id acct) t, UpdateAccountUsage (acc_id acct)]
             @ (if truthy_str (statusHeader info)
                then [UpdateAccountRateLimitMeta (acc_id acct) (the (statusHeader info))
                        (Some t) (remaining info)]
                else [])
             @ tierOps\<rparr>)
     \<and> list_all is_tier_op tierOps"
proof (intro exI conjI)
  show "processProxyResponse p resp acct st =
       (Inr True,
        st\<lparr>asyncQueue := asyncQueue st
             @ [MarkAccountRateLimited (acc_id acct) t, UpdateAccountUsage (acc_id acct)]
             @ (if truthy_str (statusHeader info)
                then [UpdateAccountRateLimitMeta (acc_id acct) (the (statusHeader info))
                        (Some t) (remaining info)]
                else [])
             @ tier_ops p acct resp\<rparr>)"
    using processProxyResponse_rate_limited [OF assms, of acct st] assms(4)
    by (simp add: meta_ops_def)
  show "list_all is_tier_op (tier_ops p acct resp)"
    by (rule tier_ops_kind)
qed

theorem rate_limited_marks_account_and_fails_over_witness:
  "parseRateLimit example_provider response_429
     = Inr \<lparr>isRateLimited = True, resetTime = Some 1700000600000,
            statusHeader = Some ''rate_limited'', remaining = None\<rparr>
   \<and> \<not> isStream_of example_provider response_429
   \<and> valid_date 1700000600000
   \<and> fst (processProxyResponse example_provider response_429 account_A empty_state) = Inr True
   \<and> take 3 (asyncQueue (snd (processProxyResponse example_provider response_429 account_A
                empty_state)))
       = [MarkAccountRateLimited ''acc-A'' 1700000600000, UpdateAccountUsage ''acc-A'',
          UpdateAccountRateLimitMeta ''acc-A'' ''rate_limited'' (Some 1700000600000) None]"
proof -
  let ?info = "\<lparr>isRateLimited = True, resetTime = Some 1700000600000,
                 statusHeader = Some ''rate_limited'', remaining = None\<rparr>"
  have parsed: "parseRateLimit example_provider response_429 = Inr ?info"
    by (simp add: example_provider_def response_429_def)
  have ns: "\<not> isStream_of example_provider response_429"
    by (simp add: isStream_of_def example_provider_def response_429_def)
  have rl: "isRateLimited ?info" by simp
  have rt: "resetTime ?info = Some 1700000600000" by simp
  have nz: "(1700000600000::int) \<noteq> 0" by simp
  have vd: "valid_date 1700000600000" by (simp add: valid_date_def)
  from rate_limited_marks_account_and_fails_over [OF parsed ns rl rt nz vd,
      of account_A empty_state]
  obtain tierOps where
    "processProxyResponse example_provider response_429 account_A empty_state =
       (Inr True,
        empty_state\<lparr>asyncQueue := asyncQueue empty_state
             @ [MarkAccountRateLimited (acc_id account_A) 1700000600000,
                UpdateAccountUsage (acc_id account_A)]
             @ (if truthy_str (statusHeader ?info)
                then [UpdateAccountRateLimitMeta (acc_id account_A) (the (statusHeader ?info))
                        (Some 1700000600000) (remaining ?info)]
                else [])
             @ tierOps\<rparr>)"
    by blast
  then show ?thesis
    using parsed ns vd by (simp add: account_A_def empty_state_def)
qed

section \<open>Facts about one attempt\<close>

lemma processProxyResponse_cases:
  obtains (throws) e where "processProxyResponse p resp acct st = (Inl e, st)"
  | (rate_limited) info t where
      "processProxyResponse p resp acct st =
         (Inr True, st\<lparr>asyncQueue := asyncQueue st
            @ [MarkAccountRateLimited (acc_id acct) t, UpdateAccountUsage (acc_id acct)]
            @ meta_ops acct info @ tier_ops p acct resp\<rparr>)"
  | (non_success) "processProxyResponse p resp acct st = (Inr True, st)"
  | (success) info where
      "processProxyResponse p resp acct st =
         (Inr False, st\<lparr>asyncQueue := asyncQueue st @ [UpdateAccountUsage (acc_id acct)]
            @ meta_ops acct info @ tier_ops p acct resp\<rparr>)"
proof (cases "parseRateLimit p resp")
  case (Inl e)
  then show ?thesis using throws processProxyResponse_throws by blast
next
  case (Inr info)
  show ?thesis
  proof (cases "\<not> isStream_of p resp \<and> isRateLimited info \<and> truthy_num (resetTime info)")
    case True
    then obtain t where t: "resetTime info = Some t" "t \<noteq> 0"
      by (cases "resetTime info") auto
    show ?thesis
    proof (cases "valid_date t")
      case valid: True
      with True Inr t show ?thesis
        using rate_limited processProxyResponse_rate_limited by blast
    next
      case invalid: False
      with True Inr t show ?thesis
        using throws processProxyResponse_invalid_reset by blast
    qed
  next
    case False
    show ?thesis
    proof (cases "status resp = 200")
      case True
      then show ?thesis
        using success processProxyResponse_success [OF Inr False] by blast
    next
      case ns: False
      then show ?thesis
        using non_success processProxyResponse_non_success [OF Inr False] by blast
    qed
  qed
qed

lemma meta_ops_filter [simp]:
  "filter is_usage_op (meta_ops acct info) = []" "filter is_mark_op (meta_ops acct info) = []"
  by (simp_all add: meta_list_filter_usage meta_list_filter_mark meta_ops_kind)

lemma tier_ops_filter [simp]:
  "filter is_usage_op (tier_ops p acct resp) = []" "filter is_mark_op (tier_ops p acct resp) = []"
  by (simp_all add: tier_list_filter_usage tier_list_filter_mark tier_ops_kind)

lemma proxyWithAccount_cases:
  obtains (failover_plain)
      "proxyWithAccount ctx req u acct m buf body k st = (Inr None, st)"
  | (failover_rate_limited) t more where
      "proxyWithAccount ctx req u acct m buf body k st =
         (Inr None, st\<lparr>asyncQueue := asyncQueue st
            @ [MarkAccountRateLimited (acc_id acct) t, UpdateAccountUsage (acc_id acct)]
            @ more\<rparr>)"
      "filter is_usage_op more = []" "filter is_mark_op more = []"
  | (accepted) forwarded more rec where
      "proxyWithAccount ctx req u acct m buf body k st =
         (Inr (Some forwarded),
          st\<lparr>asyncQueue := asyncQueue st @ [UpdateAccountUsage (acc_id acct)] @ more,
              usageRecords := usageRecords st @ [rec]\<rparr>)"
      "filter is_usage_op more = []" "filter is_mark_op more = []"
      "ur_account_id rec = Some (acc_id acct)" "ur_failover_attempts rec = k"
  | (rejected) e st1 where
      "proxyWithAccount ctx req u acct m buf body k st = (Inl e, st1)"
proof (cases "getValidAccessToken ctx acct")
  case (Inl e)
  then show ?thesis
    using failover_plain by (simp add: proxyWithAccount_def proxyWithAccount_try_def)
next
  case token: (Inr token)
  let ?call = "makeProxyRequest ctx
      (buildUrl (ctx_provider ctx) (pathname u) (search u) (Some acct)) (req_method req)
      (prepareHeaders (ctx_provider ctx) (req_headers req) (Some token) (or_null (api_key acct)))
      body (req_body req \<noteq> None)"
  show ?thesis
  proof (cases ?call)
    case (Inl e)
    then show ?thesis
      using failover_plain token
      by (simp add: proxyWithAccount_def proxyWithAccount_try_def Let_def)
  next
    case upstream: (Inr upstream)
    show ?thesis
    proof (cases rule: processProxyResponse_cases [of "ctx_provider ctx" upstream acct st])
      case (throws e)
      then show ?thesis
        using failover_plain token upstream
        by (simp add: proxyWithAccount_def proxyWithAccount_try_def Let_def)
    next
      case (rate_limited info t)
      then show ?thesis
        using failover_rate_limited [where t = t
              and more = "meta_ops acct info @ tier_ops (ctx_provider ctx) acct upstream"]
          token upstream
        by (simp add: proxyWithAccount_def proxyWithAccount_try_def Let_def)
    next
      case non_success
      then show ?thesis
        using failover_plain token upstream
        by (simp add: proxyWithAccount_def proxyWithAccount_try_def Let_def)
    next
      case (success info)
      let ?opts = "\<lparr>fo_requestId = meta_id m, fo_method = req_method req,
          fo_path = pathname u, fo_account = Some acct, fo_requestHeaders = req_headers req,
          fo_requestBody = buf, fo_response = upstream, fo_timestamp = meta_timestamp m,
          fo_retryAttempt = 0, fo_failoverAttempts = k, fo_agentUsed = agentUsed m\<rparr>"
      show ?thesis
      proof (cases "forwardRejection ctx ?opts")
        case None
        with success show ?thesis
          using accepted [where more = "meta_ops acct info @ tier_ops (ctx_provider ctx) acct upstream"]
            token upstream
          by (simp add: proxyWithAccount_def proxyWithAccount_try_def Let_def
              forwardToClient_def)
      next
        case (Some e)
        with success show ?thesis
          using rejected [where e = e] token upstream
          by (simp add: proxyWithAccount_def proxyWithAccount_try_def Let_def
              forwardToClient_def)
      qed
    qed
  qed
qed

lemma attemptCandidates_accepted:
  assumes "attemptCandidates ctx req u m buf body replayable accts k st
             = (Inr (Some accepted), st')"
  shows "\<exists>failed winner rest ops rec.
       accts = failed @ winner # rest
     \<and> asyncQueue st' = asyncQueue st @ ops
     \<and> map op_account (filter is_usage_op ops)
         = map op_account (filter is_mark_op ops) @ [acc_id winner]
     \<and> set (map op_account (filter is_mark_op ops)) \<subseteq> acc_id ` set failed
     \<and> usageRecords st' = usageRecords st @ [rec]
     \<and> ur_account_id rec = Some (acc_id winner)
     \<and> ur_failover_attempts rec = k + length failed"
  using assms
proof (induction accts arbitrary: k st)
  case Nil
  then show ?case by simp
next
  case (Cons acct candidates)
  show ?case
  proof (cases rule: proxyWithAccount_cases [of ctx req u acct m buf body k st])
    case failover_plain
    with Cons.prems have
      next_run: "attemptCandidates ctx req u m buf body replayable candidates (Suc k) st
              = (Inr (Some accepted), st')"
      by (simp split: if_splits)
    from Cons.IH [OF next_run] obtain failed winner rest ops rec where
      "candidates = failed @ winner # rest" "asyncQueue st' = asyncQueue st @ ops"
      "map op_account (filter is_usage_op ops)
         = map op_account (filter is_mark_op ops) @ [acc_id winner]"
      "set (map op_account (filter is_mark_op ops)) \<subseteq> acc_id ` set failed"
      "usageRecords st' = usageRecords st @ [rec]"
      "ur_account_id rec = Some (acc_id winner)"
      "ur_failover_attempts rec = Suc k + length failed"
      by blast
    then have
      "acct # candidates = (acct # failed) @ winner # rest
       \<and> asyncQueue st' = asyncQueue st @ ops
       \<and> map op_account (filter is_usage_op ops)
           = map op_account (filter is_mark_op ops) @ [acc_id winner]
       \<and> set (map op_account (filter is_mark_op ops)) \<subseteq> acc_id ` set (acct # failed)
       \<and> usageRecords st' = usageRecords st @ [rec]
       \<and> ur_account_id rec = Some (acc_id winner)
       \<and> ur_failover_attempts rec = k + length (acct # failed)"
      by auto
    then show ?thesis by blast
  next
    case (failover_rate_limited t more)
    let ?st1 = "st\<lparr>asyncQueue := asyncQueue st
            @ [MarkAccountRateLimited (acc_id acct) t, UpdateAccountUsage (acc_id acct)]
            @ more\<rparr>"
    from failover_rate_limited(1) Cons.prems have
      next_run: "attemptCandidates ctx req u m buf body replayable candidates (Suc k) ?st1
              = (Inr (Some accepted), st')"
      by (simp split: if_splits)
    from Cons.IH [OF next_run] obtain failed winner rest ops rec where
      "candidates = failed @ winner # rest" "asyncQueue st' = asyncQueue ?st1 @ ops"
      "map op_account (filter is_usage_op ops)
         = map op_account (filter is_mark_op ops) @ [acc_id winner]"
      "set (map op_account (filter is_mark_op ops)) \<subseteq> acc_id ` set failed"
      "usageRecords st' = usageRecords ?st1 @ [rec]"
      "ur_account_id rec = Some (acc_id winner)"
      "ur_failover_attempts rec = Suc k + length failed"
      by blast
    then have
      "acct # candidates = (acct # failed) @ winner # rest
       \<and> asyncQueue st' = asyncQueue st
           @ ([MarkAccountRateLimited (acc_id acct) t, UpdateAccountUsage (acc_id acct)]
              @ more @ ops)
       \<and> map op_account (filter is_usage_op
            ([MarkAccountRateLimited (acc_id acct) t, UpdateAccountUsage (acc_id acct)]
              @ more @ ops))
           = map op_account (filter is_mark_op
               ([MarkAccountRateLimited (acc_id acct) t, UpdateAccountUsage (acc_id acct)]
                 @ more @ ops)) @ [acc_id winner]
       \<and> set (map op_account (filter is_mark_op
               ([MarkAccountRateLimited (acc_id acct) t, UpdateAccountUsage (acc_id acct)]
                 @ more @ ops))) \<subseteq> acc_id ` set (acct # failed)
       \<and> usageRecords st' = usageRecords st @ [rec]
       \<and> ur_account_id rec = Some (acc_id winner)
       \<and> ur_failover_attempts rec = k + length (acct # failed)"
      using failover_rate_limited(2,3) by auto
    then show ?thesis by blast
  next
    case (accepted forwarded more rec)
    with Cons.prems have
      st': "st' = st\<lparr>asyncQueue := asyncQueue st @ [UpdateAccountUsage (acc_id acct)] @ more,
                     usageRecords := usageRecords st @ [rec]\<rparr>"
      by simp
    have
      "acct # candidates = [] @ acct # candidates
       \<and> asyncQueue st' = asyncQueue st @ ([UpdateAccountUsage (acc_id acct)] @ more)
       \<and> map op_account (filter is_usage_op ([UpdateAccountUsage (acc_id acct)] @ more))
           = map op_account (filter is_mark_op ([UpdateAccountUsage (acc_id acct)] @ more))
             @ [acc_id acct]
       \<and> set (map op_account (filter is_mark_op ([UpdateAccountUsage (acc_id acct)] @ more)))
           \<subseteq> acc_id ` set []
       \<and> usageRecords st' = usageRecords st @ [rec]
       \<and> ur_account_id rec = Some (acc_id acct)
       \<and> ur_failover_attempts rec = k + length ([] :: account list)"
      using accepted(2-5) st' by simp
    then show ?thesis by blast
  next
    case (rejected e st1)
    with Cons.prems show ?thesis by simp
  qed
qed

lemmas example_defs =
  example_ctx_def rejecting_ctx_def example_provider_def example_request_def example_get_def example_url_def
  example_meta_def account_A_def account_B_def account_C_def account_D_def
  account_expired_def response_429_def response_200_def response_529_def
  response_malformed_def empty_state_def

lemmas proxy_defs =
  proxyWithAccount_def proxyWithAccount_try_def proxyUnauthenticated_def
  processProxyResponse_def updateAccountMetadata_def handleRateLimitResponse_def
  handleNonSuccessResponse_def forwardToClient_def prepare_headers_def hop_by_hop_def
  isStream_of_def enqueue_def or_null_def SUCCESS_STATUS_CODES_def valid_date_def Let_def

section \<open>Attempts and failover\<close>

text \<open>
  C2, as stated, fails: the attempt with account A receives a 429 with a reset time, ends
  in failover, and has enqueued the usage update of A; after the successful attempt with
  account B the queue holds a usage update for each of the two accounts.
\<close>

theorem failover_usage_counterexample:
  "proxyWithAccount example_ctx example_request example_url account_A example_meta None None 0
       empty_state
     = (Inr None,
        \<lparr>asyncQueue = [MarkAccountRateLimited ''acc-A'' 1700000600000,
                        UpdateAccountUsage ''acc-A'',
                        UpdateAccountRateLimitMeta ''acc-A'' ''rate_limited''
                          (Some 1700000600000) None],
          usageRecords = []\<rparr>)
   \<and> attemptCandidates example_ctx example_request example_url example_meta None None True
       [account_A, account_B] 0 empty_state
     = (Inr (Some response_200),
        \<lparr>asyncQueue = [MarkAccountRateLimited ''acc-A'' 1700000600000,
                        UpdateAccountUsage ''acc-A'',
                        UpdateAccountRateLimitMeta ''acc-A'' ''rate_limited''
                          (Some 1700000600000) None,
                        UpdateAccountUsage ''acc-B'',
                        UpdateAccountRateLimitMeta ''acc-B'' ''allowed'' None None],
          usageRecords = [\<lparr>ur_request_id = ''req-1'', ur_account_id = Some ''acc-B'',
                            ur_path = ''/v1/messages'', ur_method = ''POST'', ur_status = 200,
                            ur_timestamp = 1700000000000, ur_agent = None,
                            ur_failover_attempts = 1\<rparr>]\<rparr>)"
  by (simp add: example_defs proxy_defs)

text \<open>
  C2, amended. When a request is accepted after some failovers, the usage updates enqueued
  for it are, in order, one for each attempt that marked its account rate-limited and one,
  the last, for the account of the successful attempt; the marked accounts are among those
  that failed over, and an attempt that failed over without a rate-limit mark enqueued no
  usage update. The usage record of the request names the successful account and counts
  the failovers.
\<close>

theorem usage_updates_of_accepted_request:
  assumes "attemptCandidates ctx req u m buf body replayable accts k st
             = (Inr (Some accepted), st')"
  shows "\<exists>failed winner rest rec.
       accts = failed @ winner # rest
     \<and> map op_account (filter is_usage_op (enqueued_by st st'))
         = map op_account (filter is_mark_op (enqueued_by st st')) @ [acc_id winner]
     \<and> set (map op_account (filter is_mark_op (enqueued_by st st'))) \<subseteq> acc_id ` set failed
     \<and> usageRecords st' = usageRecords st @ [rec]
     \<and> ur_account_id rec = Some (acc_id winner)
     \<and> ur_failover_attempts rec = k + length failed"
proof -
  from attemptCandidates_accepted [OF assms] obtain failed winner rest ops rec where
    parts: "accts = failed @ winner # rest"
    and queue: "asyncQueue st' = asyncQueue st @ ops"
    and usage: "map op_account (filter is_usage_op ops)
         = map op_account (filter is_mark_op ops) @ [acc_id winner]"
    and marks: "set (map op_account (filter is_mark_op ops)) \<subseteq> acc_id ` set failed"
    and urec: "usageRecords st' = usageRecords st @ [rec]" "ur_account_id rec = Some (acc_id winner)"
      "ur_failover_attempts rec = k + length failed"
    by blast
  from queue have "enqueued_by st st' = ops"
    by (simp add: enqueued_by_def)
  with parts usage marks urec show ?thesis by blast
qed

theorem usage_updates_of_accepted_request_witness:
  "attemptCandidates example_ctx example_request example_url example_meta None None True
       [account_C, account_A, account_B] 0 empty_state
     = (Inr (Some response_200),
        \<lparr>asyncQueue = [MarkAccountRateLimited ''acc-A'' 1700000600000,
                        UpdateAccountUsage ''acc-A'',
                        UpdateAccountRateLimitMeta ''acc-A'' ''rate_limited''
                          (Some 1700000600000) None,
                        UpdateAccountUsage ''acc-B'',
                        UpdateAccountRateLimitMeta ''acc-B'' ''allowed'' None None],
          usageRecords = [\<lparr>ur_request_id = ''req-1'', ur_account_id = Some ''acc-B'',
                            ur_path = ''/v1/messages'', ur_method = ''POST'', ur_status = 200,
                            ur_timestamp = 1700000000000, ur_agent = None,
                            ur_failover_attempts = 2\<rparr>]\<rparr>)
   \<and> map op_account (filter is_usage_op (enqueued_by empty_state
        (snd (attemptCandidates example_ctx example_request example_url example_meta None None
                True [account_C, account_A, account_B] 0 empty_state))))
     = map op_account (filter is_mark_op (enqueued_by empty_state
        (snd (attemptCandidates example_ctx example_request example_url example_meta None None
                True [account_C, account_A, account_B] 0 empty_state)))) @ [''acc-B'']"
proof -
  let ?final = "\<lparr>asyncQueue = [MarkAccountRateLimited ''acc-A'' 1700000600000,
                        UpdateAccountUsage ''acc-A'',
                        UpdateAccountRateLimitMeta ''acc-A'' ''rate_limited''
                          (Some 1700000600000) None,
                        UpdateAccountUsage ''acc-B'',
                        UpdateAccountRateLimitMeta ''acc-B'' ''allowed'' None None],
          usageRecords = [\<lparr>ur_request_id = ''req-1'', ur_account_id = Some ''acc-B'',
                            ur_path = ''/v1/messages'', ur_method = ''POST'', ur_status = 200,
                            ur_timestamp = 1700000000000, ur_agent = None,
                            ur_failover_attempts = 2\<rparr>]\<rparr>"
  have run: "attemptCandidates example_ctx example_request example_url example_meta None None
       True [account_C, account_A, account_B] 0 empty_state = (Inr (Some response_200), ?final)"
    by (simp add: example_defs proxy_defs)
  from usage_updates_of_accepted_request [OF run] obtain failed winner rest where
    "[account_C, account_A, account_B] = failed @ winner # rest"
    "map op_account (filter is_usage_op (enqueued_by empty_state ?final))
       = map op_account (filter is_mark_op (enqueued_by empty_state ?final)) @ [acc_id winner]"
    by blast
  moreover have "map op_account (filter is_usage_op (enqueued_by empty_state ?final))
       = [''acc-A'', ''acc-B'']"
    by (simp add: enqueued_by_def empty_state_def)
  ultimately have "map op_account (filter is_usage_op (enqueued_by empty_state ?final))
       = map op_account (filter is_mark_op (enqueued_by empty_state ?final)) @ [''acc-B'']"
    by (simp add: enqueued_by_def empty_state_def)
  with run show ?thesis by simp
qed

section \<open>Errors of an attempt\<close>

text \<open>
  C5, as stated, fails: the attempt with account B gets a 200 from upstream, the response
  processor accepts it, and the promise that the response handler returns rejects; the
  \<^verbatim>\<open>try\<close> block has been left by then, and \<open>proxyWithAccount\<close> rejects with the same
  error instead of returning \<open>null\<close>.
\<close>

theorem attempt_rejection_counterexample:
  "getValidAccessToken rejecting_ctx account_B = Inr ''token-B''
   \<and> makeProxyRequest rejecting_ctx ''https://api.anthropic.com/v1/messages'' ''POST''
         [(''content-type'', ''application/json''), (''authorization'', ''Bearer token-B''),
          (''user-agent'', ''cli'')] None True = Inr response_200
   \<and> proxyWithAccount rejecting_ctx example_request example_url account_B example_meta
         None None 0 empty_state
       = (Inl (Error ''usage worker terminated''),
          \<lparr>asyncQueue = [UpdateAccountUsage ''acc-B'',
                          UpdateAccountRateLimitMeta ''acc-B'' ''allowed'' None None],
            usageRecords = []\<rparr>)"
  by (simp add: example_defs proxy_defs)

text \<open>
  C5, amended. When the token manager throws (an \<open>AuthError\<close>, a \<open>TransientAuthError\<close> or
  anything else), when the upstream call throws, and when the response processor throws,
  \<open>proxyWithAccount\<close> returns \<open>null\<close>, the signal to try the next candidate. An exception
  leaves \<open>proxyWithAccount\<close> only after all three stages have returned and the response was
  accepted, as the rejection of the promise of the response handler.
\<close>

theorem proxyWithAccount_absorbs_stage_errors:
  "(\<forall>e. getValidAccessToken ctx acct = Inl e \<longrightarrow>
         proxyWithAccount ctx req u acct m buf body k st = (Inr None, st))
   \<and> (\<forall>token e.
         getValidAccessToken ctx acct = Inr token
         \<and> makeProxyRequest ctx
             (buildUrl (ctx_provider ctx) (pathname u) (search u) (Some acct)) (req_method req)
             (prepareHeaders (ctx_provider ctx) (req_headers req) (Some token)
                (or_null (api_key acct)))
             body (req_body req \<noteq> None) = Inl e \<longrightarrow>
         proxyWithAccount ctx req u acct m buf body k st = (Inr None, st))
   \<and> (\<forall>token upstream e st1.
         getValidAccessToken ctx acct = Inr token
         \<and> makeProxyRequest ctx
             (buildUrl (ctx_provider ctx) (pathname u) (search u) (Some acct)) (req_method req)
             (prepareHeaders (ctx_provider ctx) (req_headers req) (Some token)
                (or_null (api_key acct)))
             body (req_body req \<noteq> None) = Inr upstream
         \<and> processProxyResponse (ctx_provider ctx) upstream acct st = (Inl e, st1) \<longrightarrow>
         proxyWithAccount ctx req u acct m buf body k st = (Inr None, st1))
   \<and> (\<forall>e st1.
         proxyWithAccount ctx req u acct m buf body k st = (Inl e, st1) \<longrightarrow>
         (\<exists>token upstream opts.
            getValidAccessToken ctx acct = Inr token
          \<and> makeProxyRequest ctx
              (buildUrl (ctx_provider ctx) (pathname u) (search u) (Some acct)) (req_method req)
              (prepareHeaders (ctx_provider ctx) (req_headers req) (Some token)
                 (or_null (api_key acct)))
              body (req_body req \<noteq> None) = Inr upstream
          \<and> processProxyResponse (ctx_provider ctx) upstream acct st = (Inr False, st1)
          \<and> fo_response opts = upstream \<and> fo_account opts = Some acct
          \<and> forwardRejection ctx opts = Some e))"
proof (intro conjI allI impI)
  fix e
  assume "getValidAccessToken ctx acct = Inl e"
  then show "proxyWithAccount ctx req u acct m buf body k st = (Inr None, st)"
    by (simp add: proxyWithAccount_def proxyWithAccount_try_def)
next
  fix token e
  assume "getValidAccessToken ctx acct = Inr token
         \<and> makeProxyRequest ctx
             (buildUrl (ctx_provider ctx) (pathname u) (search u) (Some acct)) (req_method req)
             (prepareHeaders (ctx_provider ctx) (req_headers req) (Some token)
                (or_null (api_key acct)))
             body (req_body req \<noteq> None) = Inl e"
  then show "proxyWithAccount ctx req u acct m buf body k st = (Inr None, st)"
    by (simp add: proxyWithAccount_def proxyWithAccount_try_def Let_def)
next
  fix token upstream e st1
  assume "getValidAccessToken ctx acct = Inr token
         \<and> makeProxyRequest ctx
             (buildUrl (ctx_provider ctx) (pathname u) (search u) (Some acct)) (req_method req)
             (prepareHeaders (ctx_provider ctx) (req_headers req) (Some token)
                (or_null (api_key acct)))
             body (req_body req \<noteq> None) = Inr upstream
         \<and> processProxyResponse (ctx_provider ctx) upstream acct st = (Inl e, st1)"
  then show "proxyWithAccount ctx req u acct m buf body k st = (Inr None, st1)"
    by (simp add: proxyWithAccount_def proxyWithAccount_try_def Let_def)
next
  fix e st1
  assume rejects: "proxyWithAccount ctx req u acct m buf body k st = (Inl e, st1)"
  show "\<exists>token upstream opts.
            getValidAccessToken ctx acct = Inr token
          \<and> makeProxyRequest ctx
              (buildUrl (ctx_provider ctx) (pathname u) (search u) (Some acct)) (req_method req)
              (prepareHeaders (ctx_provider ctx) (req_headers req) (Some token)
                 (or_null (api_key acct)))
              body (req_body req \<noteq> None) = Inr upstream
          \<and> processProxyResponse (ctx_provider ctx) upstream acct st = (Inr False, st1)
          \<and> fo_response opts = upstream \<and> fo_account opts = Some acct
          \<and> forwardRejection ctx opts = Some e"
  proof (cases "getValidAccessToken ctx acct")
    case (Inl e')
    with rejects show ?thesis
      by (simp add: proxyWithAccount_def proxyWithAccount_try_def)
  next
    case token: (Inr token)
    show ?thesis
    proof (cases "makeProxyRequest ctx
              (buildUrl (ctx_provider ctx) (pathname u) (search u) (Some acct)) (req_method req)
              (prepareHeaders (ctx_provider ctx) (req_headers req) (Some token)
                 (or_null (api_key acct)))
              body (req_body req \<noteq> None)")
      case (Inl e')
      with rejects token show ?thesis
        by (simp add: proxyWithAccount_def proxyWithAccount_try_def Let_def)
    next
      case upstream: (Inr upstream)
      let ?opts = "\<lparr>fo_requestId = meta_id m, fo_method = req_method req,
          fo_path = pathname u, fo_account = Some acct, fo_requestHeaders = req_headers req,
          fo_requestBody = buf, fo_response = upstream, fo_timestamp = meta_timestamp m,
          fo_retryAttempt = 0, fo_failoverAttempts = k, fo_agentUsed = agentUsed m\<rparr>"
      obtain outcome st2 where
        processed: "processProxyResponse (ctx_provider ctx) upstream acct st = (outcome, st2)"
        by (cases "processProxyResponse (ctx_provider ctx) upstream acct st")
      from rejects token upstream processed
      have "outcome = Inr False \<and> st2 = st1 \<and> forwardRejection ctx ?opts = Some e"
        by (auto simp add: proxyWithAccount_def proxyWithAccount_try_def Let_def
            forwardToClient_def split: sum.splits if_splits option.splits)
      with token upstream processed
      have "getValidAccessToken ctx acct = Inr token
          \<and> makeProxyRequest ctx
              (buildUrl (ctx_provider ctx) (pathname u) (search u) (Some acct)) (req_method req)
              (prepareHeaders (ctx_provider ctx) (req_headers req) (Some token)
                 (or_null (api_key acct)))
              body (req_body req \<noteq> None) = Inr upstream
          \<and> processProxyResponse (ctx_provider ctx) upstream acct st = (Inr False, st1)
          \<and> fo_response ?opts = upstream \<and> fo_account ?opts = Some acct
          \<and> forwardRejection ctx ?opts = Some e"
        by simp
      then show ?thesis by blast
    qed
  qed
qed

theorem proxyWithAccount_absorbs_stage_errors_witness:
  "getValidAccessToken example_ctx account_expired = Inl (AuthError ''refresh token rejected'')
   \<and> proxyWithAccount example_ctx example_request example_url account_expired example_meta
         None None 0 empty_state = (Inr None, empty_state)
   \<and> getValidAccessToken example_ctx account_C = Inr ''token-C''
   \<and> makeProxyRequest example_ctx ''https://api.anthropic.com/v1/messages'' ''POST''
         [(''content-type'', ''application/json''), (''authorization'', ''Bearer token-C''),
          (''user-agent'', ''cli'')] None True = Inl (Error ''ECONNRESET'')
   \<and> proxyWithAccount example_ctx example_request example_url account_C example_meta
         None None 0 empty_state = (Inr None, empty_state)
   \<and> processProxyResponse example_provider response_malformed account_D empty_state
         = (Inl (Error ''Invalid time value''), empty_state)
   \<and> proxyWithAccount example_ctx example_request example_url account_D example_meta
         None None 0 empty_state = (Inr None, empty_state)
   \<and> proxyWithAccount rejecting_ctx example_request example_url account_B example_meta
         None None 0 empty_state
       = (Inl (Error ''usage worker terminated''),
          \<lparr>asyncQueue = [UpdateAccountUsage ''acc-B'',
                          UpdateAccountRateLimitMeta ''acc-B'' ''allowed'' None None],
            usageRecords = []\<rparr>)
   \<and> getValidAccessToken rejecting_ctx account_B = Inr ''token-B''"
proof -
  have token_E: "getValidAccessToken example_ctx account_expired
                   = Inl (AuthError ''refresh token rejected'')"
    by (simp add: example_ctx_def account_expired_def)
  have token_C: "getValidAccessToken example_ctx account_C = Inr ''token-C''"
    by (simp add: example_ctx_def account_C_def)
  have token_D: "getValidAccessToken example_ctx account_D = Inr ''token-D''"
    by (simp add: example_ctx_def account_D_def)
  have url: "buildUrl example_provider (pathname example_url) (search example_url)
               (Some a) = ''https://api.anthropic.com/v1/messages''" for a
    by (simp add: example_defs)
  have hdrs: "prepareHeaders example_provider (req_headers example_request)
                (Some t) (or_null (api_key a))
              = [(''content-type'', ''application/json''), (''authorization'', ''Bearer '' @ t),
                 (''user-agent'', ''cli'')]" for t a
    by (simp add: example_defs prepare_headers_def hop_by_hop_def)
  have call_C: "makeProxyRequest example_ctx ''https://api.anthropic.com/v1/messages'' ''POST''
         [(''content-type'', ''application/json''), (''authorization'', ''Bearer token-C''),
          (''user-agent'', ''cli'')] None True = Inl (Error ''ECONNRESET'')"
    by (simp add: example_defs)
  have call_D: "makeProxyRequest example_ctx ''https://api.anthropic.com/v1/messages'' ''POST''
         [(''content-type'', ''application/json''), (''authorization'', ''Bearer token-D''),
          (''user-agent'', ''cli'')] None True = Inr response_malformed"
    by (simp add: example_defs)
  have thrown: "processProxyResponse example_provider response_malformed account_D empty_state
         = (Inl (Error ''Invalid time value''), empty_state)"
    by (simp add: example_defs proxy_defs)
  have m: "req_method example_request = ''POST''" "req_body example_request = Some ''{}''"
    "ctx_provider example_ctx = example_provider"
    by (simp_all add: example_defs)
  have r_E: "proxyWithAccount example_ctx example_request example_url account_expired
         example_meta None None 0 empty_state = (Inr None, empty_state)"
    using proxyWithAccount_absorbs_stage_errors [of example_ctx account_expired example_request
        example_url example_meta None None 0 empty_state] token_E
    by blast
  have r_C: "proxyWithAccount example_ctx example_request example_url account_C
         example_meta None None 0 empty_state = (Inr None, empty_state)"
    using proxyWithAccount_absorbs_stage_errors [of example_ctx account_C example_request
        example_url example_meta None None 0 empty_state] token_C call_C
    by (simp add: m url hdrs)
  have r_D: "proxyWithAccount example_ctx example_request example_url account_D
         example_meta None None 0 empty_state = (Inr None, empty_state)"
    using proxyWithAccount_absorbs_stage_errors [of example_ctx account_D example_request
        example_url example_meta None None 0 empty_state] token_D call_D thrown
    by (simp add: m url hdrs)
  have r_B: "proxyWithAccount rejecting_ctx example_request example_url account_B example_meta
         None None 0 empty_state
       = (Inl (Error ''usage worker terminated''),
          \<lparr>asyncQueue = [UpdateAccountUsage ''acc-B'',
                          UpdateAccountRateLimitMeta ''acc-B'' ''allowed'' None None],
            usageRecords = []\<rparr>)"
    by (simp add: example_defs proxy_defs)
  from proxyWithAccount_absorbs_stage_errors [of rejecting_ctx account_B example_request
        example_url example_meta None None 0 empty_state] r_B
  obtain token where "getValidAccessToken rejecting_ctx account_B = Inr token"
    by blast
  then have token_B: "getValidAccessToken rejecting_ctx account_B = Inr ''token-B''"
    by (simp add: example_defs)
  from token_E token_C call_C thrown r_E r_C r_D r_B token_B show ?thesis by simp
qed


section \<open>Unauthenticated pass-through\<close>

lemma prepare_headers_no_credentials:
  "''authorization'' \<notin> fst ` set (prepare_headers ua ver incoming None None)"
  "''x-api-key'' \<notin> fst ` set (prepare_headers ua ver incoming None None)"
  by (auto simp add: prepare_headers_def)

text \<open>
  C6. Without eligible accounts the request goes upstream with the headers that the
  provider prepares from neither access token nor api key, which by the contract of
  \<open>prepare_headers\<close> hold neither an \<open>authorization\<close> nor an \<open>x-api-key\<close> header. When
  the upstream call returns, its response is handed to the response handler with no
  account: the response is forwarded and the usage record produced for the request carries
  no account (and should the promise of the response handler reject, that rejection is the
  outcome and no usage record is produced). When the upstream call throws, a
  \<open>ProviderError\<close> with status 502 is thrown in place of a response.
\<close>

theorem proxyUnauthenticated_forwards_without_credentials:
  "(let hdrs = prepareHeaders (ctx_provider ctx) (req_headers req) None None;
        call = makeProxyRequest ctx
                 (buildUrl (ctx_provider ctx) (pathname u) (search u) None) (req_method req)
                 hdrs body (req_body req \<noteq> None)
    in (prepareHeaders (ctx_provider ctx) = prepare_headers ua ver \<longrightarrow>
          ''authorization'' \<notin> fst ` set hdrs \<and> ''x-api-key'' \<notin> fst ` set hdrs)
     \<and> (\<forall>upstream. call = Inr upstream \<longrightarrow>
          (case forwardRejection ctx
                  \<lparr>fo_requestId = meta_id m, fo_method = req_method req,
                   fo_path = pathname u, fo_account = None,
                   fo_requestHeaders = req_headers req, fo_requestBody = buf,
                   fo_response = upstream, fo_timestamp = meta_timestamp m,
                   fo_retryAttempt = 0, fo_failoverAttempts = 0,
                   fo_agentUsed = agentUsed m\<rparr> of
             None \<Rightarrow>
               (\<exists>forwarded rec.
                  proxyUnauthenticated ctx req u m buf body st
                    = (Inr forwarded, st\<lparr>usageRecords := usageRecords st @ [rec]\<rparr>)
                \<and> ur_account_id rec = None
                \<and> ur_request_id rec = meta_id m
                \<and> ur_status rec = status upstream
                \<and> status forwarded = status upstream
                \<and> resp_body forwarded = resp_body upstream)
           | Some rejection \<Rightarrow>
               proxyUnauthenticated ctx req u m buf body st = (Inl rejection, st)))
     \<and> (\<forall>e. call = Inl e \<longrightarrow>
          proxyUnauthenticated ctx req u m buf body st
            = (Inl (ProviderError (UNAUTHENTICATED_FAILED ctx) (provider_name (ctx_provider ctx))
                      502 (error_message e)), st)))"
  unfolding Let_def
proof (intro conjI allI impI)
  assume "prepareHeaders (ctx_provider ctx) = prepare_headers ua ver"
  then show "''authorization''
      \<notin> fst ` set (prepareHeaders (ctx_provider ctx) (req_headers req) None None)"
    and "''x-api-key''
      \<notin> fst ` set (prepareHeaders (ctx_provider ctx) (req_headers req) None None)"
    by (simp_all add: prepare_headers_no_credentials)
next
  fix upstream
  let ?opts = "\<lparr>fo_requestId = meta_id m, fo_method = req_method req,
                   fo_path = pathname u, fo_account = None,
                   fo_requestHeaders = req_headers req, fo_requestBody = buf,
                   fo_response = upstream, fo_timestamp = meta_timestamp m,
                   fo_retryAttempt = 0, fo_failoverAttempts = 0,
                   fo_agentUsed = agentUsed m\<rparr>"
  assume call: "makeProxyRequest ctx (buildUrl (ctx_provider ctx) (pathname u) (search u) None)
            (req_method req) (prepareHeaders (ctx_provider ctx) (req_headers req) None None)
            body (req_body req \<noteq> None) = Inr upstream"
  show "case forwardRejection ctx ?opts of
          None \<Rightarrow>
            (\<exists>forwarded rec.
               proxyUnauthenticated ctx req u m buf body st
                 = (Inr forwarded, st\<lparr>usageRecords := usageRecords st @ [rec]\<rparr>)
             \<and> ur_account_id rec = None
             \<and> ur_request_id rec = meta_id m
             \<and> ur_status rec = status upstream
             \<and> status forwarded = status upstream
             \<and> resp_body forwarded = resp_body upstream)
        | Some rejection \<Rightarrow>
            proxyUnauthenticated ctx req u m buf body st = (Inl rejection, st)"
  proof (cases "forwardRejection ctx ?opts")
    case None
    with call have run: "proxyUnauthenticated ctx req u m buf body st
        = (Inr (upstream\<lparr>resp_headers :=
                   filter (\<lambda>(k, v). k \<notin> set hop_by_hop) (resp_headers upstream)\<rparr>),
           st\<lparr>usageRecords := usageRecords st @
                 [\<lparr>ur_request_id = meta_id m, ur_account_id = None, ur_path = pathname u,
                   ur_method = req_method req, ur_status = status upstream,
                   ur_timestamp = meta_timestamp m, ur_agent = agentUsed m,
                   ur_failover_attempts = 0\<rparr>]\<rparr>)"
      by (simp add: proxyUnauthenticated_def forwardToClient_def Let_def)
    have "\<exists>forwarded rec.
               proxyUnauthenticated ctx req u m buf body st
                 = (Inr forwarded, st\<lparr>usageRecords := usageRecords st @ [rec]\<rparr>)
             \<and> ur_account_id rec = None
             \<and> ur_request_id rec = meta_id m
             \<and> ur_status rec = status upstream
             \<and> status forwarded = status upstream
             \<and> resp_body forwarded = resp_body upstream"
      by (intro exI conjI) (rule run, simp_all)
    with None show ?thesis by simp
  next
    case (Some rejection)
    with call show ?thesis
      by (simp add: proxyUnauthenticated_def forwardToClient_def Let_def)
  qed
next
  fix e
  assume "makeProxyRequest ctx (buildUrl (ctx_provider ctx) (pathname u) (search u) None)
            (req_method req) (prepareHeaders (ctx_provider ctx) (req_headers req) None None)
            body (req_body req \<noteq> None) = Inl e"
  then show "proxyUnauthenticated ctx req u m buf body st
            = (Inl (ProviderError (UNAUTHENTICATED_FAILED ctx) (provider_name (ctx_provider ctx))
                      502 (error_message e)), st)"
    by (simp add: proxyUnauthenticated_def Let_def)
qed

theorem proxyUnauthenticated_forwards_without_credentials_witness:
  "prepareHeaders (ctx_provider example_ctx)
     = prepare_headers [(''user-agent'', ''cli'')] [(''anthropic-version'', ''2023-06-01'')]
   \<and> ''authorization'' \<notin> fst ` set (prepareHeaders (ctx_provider example_ctx)
                                        (req_headers example_request) None None)
   \<and> makeProxyRequest example_ctx ''https://api.anthropic.com/v1/messages'' ''GET'' [] None False
       = Inr response_529
   \<and> proxyUnauthenticated example_ctx example_get example_url example_meta None None empty_state
       = (Inr response_529,
          \<lparr>asyncQueue = [],
            usageRecords = [\<lparr>ur_request_id = ''req-1'', ur_account_id = None,
                              ur_path = ''/v1/messages'', ur_method = ''GET'', ur_status = 529,
                              ur_timestamp = 1700000000000, ur_agent = None,
                              ur_failover_attempts = 0\<rparr>]\<rparr>)
   \<and> makeProxyRequest example_ctx ''https://api.anthropic.com/v1/messages'' ''POST''
         [(''content-type'', ''application/json'')] None True = Inl (Error ''ECONNREFUSED'')
   \<and> proxyUnauthenticated example_ctx example_request example_url example_meta None None
         empty_state
       = (Inl (ProviderError ''Failed to proxy request without authentication'' ''anthropic'' 502
                 ''ECONNREFUSED''), empty_state)"
proof -
  have prep: "prepareHeaders (ctx_provider example_ctx)
     = prepare_headers [(''user-agent'', ''cli'')] [(''anthropic-version'', ''2023-06-01'')]"
    by (simp add: example_defs)
  have call_get: "makeProxyRequest example_ctx ''https://api.anthropic.com/v1/messages'' ''GET''
         [] None False = Inr response_529"
    by (simp add: example_defs)
  have call_post: "makeProxyRequest example_ctx ''https://api.anthropic.com/v1/messages''
         ''POST'' [(''content-type'', ''application/json'')] None True
           = Inl (Error ''ECONNREFUSED'')"
    by (simp add: example_defs)
  have call_post': "makeProxyRequest example_ctx
         (buildUrl (ctx_provider example_ctx) (pathname example_url) (search example_url) None)
         (req_method example_request)
         (prepareHeaders (ctx_provider example_ctx) (req_headers example_request) None None)
         None (req_body example_request \<noteq> None) = Inl (Error ''ECONNREFUSED'')"
    by (simp add: example_defs prepare_headers_def hop_by_hop_def)
  from proxyUnauthenticated_forwards_without_credentials
         [of example_ctx example_request example_url None
             "[(''user-agent'', ''cli'')]" "[(''anthropic-version'', ''2023-06-01'')]"
             example_meta None empty_state]
  have no_auth: "''authorization'' \<notin> fst ` set (prepareHeaders (ctx_provider example_ctx)
                                        (req_headers example_request) None None)"
    and failed: "proxyUnauthenticated example_ctx example_request example_url example_meta None
         None empty_state
       = (Inl (ProviderError (UNAUTHENTICATED_FAILED example_ctx)
                 (provider_name (ctx_provider example_ctx)) 502
                 (error_message (Error ''ECONNREFUSED''))), empty_state)"
    using prep call_post' unfolding Let_def by blast+
  have forwarded: "proxyUnauthenticated example_ctx example_get example_url example_meta None
         None empty_state
       = (Inr response_529,
          \<lparr>asyncQueue = [],
            usageRecords = [\<lparr>ur_request_id = ''req-1'', ur_account_id = None,
                              ur_path = ''/v1/messages'', ur_method = ''GET'', ur_status = 529,
                              ur_timestamp = 1700000000000, ur_agent = None,
                              ur_failover_attempts = 0\<rparr>]\<rparr>)"
    by (simp add: example_defs proxy_defs)
  from prep no_auth call_get forwarded call_post failed show ?thesis
    by (simp add: example_defs)
qed

section \<open>Accounts created by the OAuth flow\<close>

lemmas oauth_defs =
  OAuthFlow_complete_def OAuthFlow_begin_def OAuthFlow_createAnthropicApiKey_def
  OAuthFlow_createAccountWithOAuth_def OAuthFlow_createAccountWithApiKey_def
  insert_account_def getAllAccounts_def or_null_def or_empty_def Let_def

lemmas oauth_example_defs =
  example_world_def example_oauth_provider_def example_db_def example_flow_def account_A_def

text \<open>
  C7. An account created by completing the flow is one new row of the accounts table,
  with both request counters 0. When it is created in oauth mode the row has no api key
  and has an access token, a refresh token and an expiry; when it is created in api-key
  mode the row has an api key and none of the three.
\<close>

theorem completed_account_satisfies_auth_invariant:
  assumes "OAuthFlow_complete w db code tier_opt nm flowData = (Inr created, db')"
  shows "\<exists>row. db' = db @ [row]
     \<and> acc_id row = created_id created \<and> name row = nm
     \<and> request_count row = 0 \<and> total_requests row = 0
     \<and> (authType created = OAuth \<longrightarrow>
          api_key row = None \<and> access_token row \<noteq> None \<and> refresh_token row \<noteq> None
          \<and> expires_at row \<noteq> None)
     \<and> (authType created = ApiKey \<longrightarrow>
          api_key row \<noteq> None \<and> access_token row = None \<and> refresh_token row = None
          \<and> expires_at row = None)"
  using assms
  by (auto simp add: oauth_defs split: option.splits sum.splits if_splits)

theorem completed_account_satisfies_auth_invariant_witness:
  "OAuthFlow_complete example_world example_db ''max-code'' None ''zeta''
       (example_flow MaxMode None)
     = (Inr \<lparr>created_id = ''uuid-1'', created_name = ''zeta'', created_tier = 1,
              created_provider = ''anthropic'', authType = OAuth\<rparr>,
        example_db @
        [\<lparr>acc_id = ''uuid-1'', name = ''zeta'', provider = ''anthropic'', api_key = None,
           refresh_token = Some ''refresh-1'', access_token = Some ''access-1'',
           expires_at = Some 1700003600000, created_at = 1700000000000, request_count = 0,
           total_requests = 0, account_tier = 1, base_url = None\<rparr>])
   \<and> OAuthFlow_complete example_world example_db ''console-code'' (Some 5) ''zeta''
       (example_flow MaxMode None)
     = (Inr \<lparr>created_id = ''uuid-1'', created_name = ''zeta'', created_tier = 5,
              created_provider = ''anthropic'', authType = ApiKey\<rparr>,
        example_db @
        [\<lparr>acc_id = ''uuid-1'', name = ''zeta'', provider = ''anthropic'',
           api_key = Some ''sk-ant-1'', refresh_token = None, access_token = None,
           expires_at = None, created_at = 1700000000000, request_count = 0,
           total_requests = 0, account_tier = 5, base_url = None\<rparr>])
   \<and> api_key (last (snd (OAuthFlow_complete example_world example_db ''max-code'' None
         ''zeta'' (example_flow MaxMode None)))) = None
   \<and> api_key (last (snd (OAuthFlow_complete example_world example_db ''console-code'' (Some 5)
         ''zeta'' (example_flow MaxMode None)))) \<noteq> None"
proof -
  let ?c1 = "\<lparr>created_id = ''uuid-1'', created_name = ''zeta'', created_tier = 1,
              created_provider = ''anthropic'', authType = OAuth\<rparr>"
  let ?r1 = "\<lparr>acc_id = ''uuid-1'', name = ''zeta'', provider = ''anthropic'', api_key = None,
           refresh_token = Some ''refresh-1'', access_token = Some ''access-1'',
           expires_at = Some 1700003600000, created_at = 1700000000000, request_count = 0,
           total_requests = 0, account_tier = 1, base_url = None\<rparr>"
  let ?c2 = "\<lparr>created_id = ''uuid-1'', created_name = ''zeta'', created_tier = 5,
              created_provider = ''anthropic'', authType = ApiKey\<rparr>"
  let ?r2 = "\<lparr>acc_id = ''uuid-1'', name = ''zeta'', provider = ''anthropic'',
           api_key = Some ''sk-ant-1'', refresh_token = None, access_token = None,
           expires_at = None, created_at = 1700000000000, request_count = 0,
           total_requests = 0, account_tier = 5, base_url = None\<rparr>"
  have run1: "OAuthFlow_complete example_world example_db ''max-code'' None ''zeta''
       (example_flow MaxMode None) = (Inr ?c1, example_db @ [?r1])"
    by (simp add: oauth_defs oauth_example_defs)
  have run2: "OAuthFlow_complete example_world example_db ''console-code'' (Some 5) ''zeta''
       (example_flow MaxMode None) = (Inr ?c2, example_db @ [?r2])"
    by (simp add: oauth_defs oauth_example_defs)
  from completed_account_satisfies_auth_invariant [OF run1]
  have "api_key (last (example_db @ [?r1])) = None"
    by auto
  moreover from completed_account_satisfies_auth_invariant [OF run2]
  have "api_key (last (example_db @ [?r2])) \<noteq> None"
    by auto
  ultimately show ?thesis
    using run1 run2 by simp
qed

text \<open>
  C8. \<open>begin\<close> called with the name of a stored account throws the error that the account
  name already exists; it returns a flow only for a name that no stored account has; and
  in every case it leaves the database as it was.
\<close>

theorem begin_rejects_existing_name:
  "(nm \<in> name ` set db \<longrightarrow>
      OAuthFlow_begin w db nm md burl
        = (Inl (Error (''Account with name '' @ [CHR 0x27] @ nm @ [CHR 0x27]
                         @ '' already exists'')), db))
   \<and> (\<forall>started. fst (OAuthFlow_begin w db nm md burl) = Inr started \<longrightarrow>
         nm \<notin> name ` set db)
   \<and> snd (OAuthFlow_begin w db nm md burl) = db"
proof -
  have ex: "list_ex (\<lambda>a. name a = nm) db \<longleftrightarrow> nm \<in> name ` set db"
    by (auto simp add: list_ex_iff)
  show ?thesis
    by (auto simp add: OAuthFlow_begin_def getAllAccounts_def Let_def ex
        split: option.splits sum.splits)
qed

theorem begin_rejects_existing_name_witness:
  "''alpha'' \<in> name ` set example_db
   \<and> OAuthFlow_begin example_world example_db ''alpha'' MaxMode None
       = (Inl (Error (''Account with name '' @ [CHR 0x27] @ ''alpha'' @ [CHR 0x27]
                        @ '' already exists'')), example_db)
   \<and> fst (OAuthFlow_begin example_world example_db ''zeta'' ConsoleMode None)
       = Inr \<lparr>sessionId = ''uuid-1'',
               authUrl = ''https://claude.ai/oauth/authorize?client_id=client-1'',
               pkce = \<lparr>verifier = ''verifier-1'', challenge = ''challenge-1''\<rparr>,
               oauthConfig = \<lparr>clientId = ''client-1'', settings = ''console''\<rparr>,
               mode = ConsoleMode, baseUrl = None\<rparr>
   \<and> ''zeta'' \<notin> name ` set example_db"
proof -
  have stored: "''alpha'' \<in> name ` set example_db"
    by (simp add: example_db_def account_A_def)
  have started: "fst (OAuthFlow_begin example_world example_db ''zeta'' ConsoleMode None)
       = Inr \<lparr>sessionId = ''uuid-1'',
               authUrl = ''https://claude.ai/oauth/authorize?client_id=client-1'',
               pkce = \<lparr>verifier = ''verifier-1'', challenge = ''challenge-1''\<rparr>,
               oauthConfig = \<lparr>clientId = ''client-1'', settings = ''console''\<rparr>,
               mode = ConsoleMode, baseUrl = None\<rparr>"
    by (simp add: oauth_defs oauth_example_defs)
  from begin_rejects_existing_name [of "''alpha''" example_db example_world MaxMode None] stored
  have rejected: "OAuthFlow_begin example_world example_db ''alpha'' MaxMode None
       = (Inl (Error (''Account with name '' @ [CHR 0x27] @ ''alpha'' @ [CHR 0x27]
                        @ '' already exists'')), example_db)"
    by blast
  from begin_rejects_existing_name [of "''zeta''" example_db example_world ConsoleMode None]
    started
  have fresh: "''zeta'' \<notin> name ` set example_db"
    by blast
  from stored rejected started fresh show ?thesis by blast
qed

text \<open>
  C10. When the code exchange has returned and \<open>complete\<close> takes the console path (the
  mode is console, or the tokens have no refresh token) with a custom base URL in the
  flow data, it throws before any row is inserted: the accounts table is as before.
\<close>

theorem console_path_with_base_url_inserts_nothing:
  assumes "getOAuthProvider w ''anthropic'' = Some oauthProvider"
    and "exchangeCode oauthProvider code (verifier (pkce flowData)) (oauthConfig flowData)
           = Inr tokens"
    and "mode flowData = ConsoleMode \<or> \<not> truthy_str (refreshToken tokens)"
    and "truthy_str (baseUrl flowData)"
  shows "OAuthFlow_complete w db code tier_opt nm flowData
     = (Inl (Error ''Console mode with custom base URL should use direct API key input, not OAuth flow''),
        db)"
  using assms by (auto simp add: OAuthFlow_complete_def Let_def)

theorem console_path_with_base_url_inserts_nothing_witness:
  "getOAuthProvider example_world ''anthropic'' = Some example_oauth_provider
   \<and> mode (example_flow ConsoleMode (Some ''https://proxy.example'')) = ConsoleMode
   \<and> truthy_str (baseUrl (example_flow ConsoleMode (Some ''https://proxy.example'')))
   \<and> OAuthFlow_complete example_world example_db ''max-code'' (Some 5) ''zeta''
       (example_flow ConsoleMode (Some ''https://proxy.example''))
     = (Inl (Error ''Console mode with custom base URL should use direct API key input, not OAuth flow''),
        example_db)
   \<and> \<not> truthy_str (refreshToken \<lparr>accessToken = ''access-2'', refreshToken = None,
                                    expiresAt = 1700003600000\<rparr>)
   \<and> OAuthFlow_complete example_world example_db ''console-code'' None ''zeta''
       (example_flow MaxMode (Some ''https://proxy.example''))
     = (Inl (Error ''Console mode with custom base URL should use direct API key input, not OAuth flow''),
        example_db)"
proof -
  let ?flow1 = "example_flow ConsoleMode (Some ''https://proxy.example'')"
  let ?flow2 = "example_flow MaxMode (Some ''https://proxy.example'')"
  let ?t1 = "\<lparr>accessToken = ''access-1'', refreshToken = Some ''refresh-1'',
               expiresAt = 1700003600000\<rparr>"
  let ?t2 = "\<lparr>accessToken = ''access-2'', refreshToken = None, expiresAt = 1700003600000\<rparr>"
  have prov: "getOAuthProvider example_world ''anthropic'' = Some example_oauth_provider"
    by (simp add: example_world_def)
  have ex1: "exchangeCode example_oauth_provider ''max-code'' (verifier (pkce ?flow1))
               (oauthConfig ?flow1) = Inr ?t1"
    by (simp add: example_oauth_provider_def)
  have ex2: "exchangeCode example_oauth_provider ''console-code'' (verifier (pkce ?flow2))
               (oauthConfig ?flow2) = Inr ?t2"
    by (simp add: example_oauth_provider_def)
  have path1: "mode ?flow1 = ConsoleMode \<or> \<not> truthy_str (refreshToken ?t1)"
    by (simp add: example_flow_def)
  have path2: "mode ?flow2 = ConsoleMode \<or> \<not> truthy_str (refreshToken ?t2)"
    by simp
  have url1: "truthy_str (baseUrl ?flow1)" and url2: "truthy_str (baseUrl ?flow2)"
    by (simp_all add: example_flow_def)
  from console_path_with_base_url_inserts_nothing [OF prov ex1 path1 url1]
    console_path_with_base_url_inserts_nothing [OF prov ex2 path2 url2]
    prov url1
  show ?thesis by (simp add: example_flow_def)
qed

end
